theory Spec2Isabelle
  imports Main "HOL-Library.Sublist" "HOL-Library.Multiset"
begin

section \<open>Ship Ship Hooray: split shipping rates by pre-order status\<close>

text \<open>
  \<^verbatim>\<open>src/server.js\<close> holds two variants of the same server, one after the other.
  The first (lines 1-766, the \<^emph>\<open>two-hop\<close> variant) resolves the pre-order status of a
  variant with one Shopify REST call followed by one PreProduct call; the second
  (lines 767-1265, the \<^emph>\<open>batch\<close> variant) resolves all uncached variants with one
  GraphQL query. Where both variants define a function of the same name, the
  definitions below carry the suffixes \<open>_twohop\<close> and \<open>_batch\<close>.

  Numbers are JavaScript numbers in the source. Prices, quantities, thresholds and
  identifiers are integers there, so they are \<^typ>\<open>int\<close> here (exact as long as the
  magnitudes stay below \<open>2^53\<close>).
\<close>

subsection \<open>Strings\<close>

definition digit :: "nat \<Rightarrow> char" where
  "digit d = ''0123456789'' ! d"

function digits :: "nat \<Rightarrow> string" where
  "digits n = (if n < 10 then [digit n] else digits (n div 10) @ [digit (n mod 10)])"
  by pat_completeness auto
termination
  by (relation "measure id") auto

declare digits.simps [simp del]

text \<open>\<^verbatim>\<open>Number.prototype.toString()\<close> on an integer: its decimal digits.\<close>

definition toString :: "int \<Rightarrow> string" where
  "toString i = (if i < 0 then CHR ''-'' # digits (nat (- i)) else digits (nat i))"

text \<open>\<^verbatim>\<open>String.prototype.toLowerCase()\<close>, on the ASCII letters.\<close>

definition toLowerCase_char :: "char \<Rightarrow> char" where
  "toLowerCase_char c =
     (case map_of (zip ''ABCDEFGHIJKLMNOPQRSTUVWXYZ'' ''abcdefghijklmnopqrstuvwxyz'') c of
        Some l \<Rightarrow> l
      | None \<Rightarrow> c)"

definition toLowerCase :: "string \<Rightarrow> string" where
  "toLowerCase s = map toLowerCase_char s"

text \<open>\<^verbatim>\<open>s.includes(pat)\<close>: \<open>pat\<close> occurs in \<open>s\<close> as a contiguous substring.\<close>

fun str_includes :: "string \<Rightarrow> string \<Rightarrow> bool" where
  "str_includes [] pat = (pat = [])"
| "str_includes (c # cs) pat = (prefix pat (c # cs) \<or> str_includes cs pat)"

text \<open>\<^verbatim>\<open>s.replace(pat, rep)\<close> with a string pattern: the first occurrence only.\<close>

fun str_replace :: "string \<Rightarrow> string \<Rightarrow> string \<Rightarrow> string" where
  "str_replace [] pat rep = (if pat = [] then rep else [])"
| "str_replace (c # cs) pat rep =
     (if prefix pat (c # cs) then rep @ drop (length pat) (c # cs)
      else c # str_replace cs pat rep)"

subsection \<open>Configuration, line items, quotes\<close>

record labels =
  rts :: string
  po :: string

text \<open>\<^verbatim>\<open>appConfig\<close> (lines 88-98 and 812-822).\<close>

record appConfig =
  threshold :: int
  feeUnderThreshold :: int
  labels :: labels
  description :: string
  killSwitch :: bool
  currency :: string

definition defaultConfig :: appConfig where
  "defaultConfig =
     \<lparr> threshold = 5000, feeUnderThreshold = 500,
       labels = \<lparr> rts = ''Ships Now (In-Stock)'', po = ''Ships Later (Pre-Order)'' \<rparr>,
       description = ''Free over $50'', killSwitch = False, currency = ''USD'' \<rparr>"

text \<open>Cache TTL (24 hours), line 101.\<close>

definition CACHE_TTL :: nat where
  "CACHE_TTL = 24 * 60 * 60"

text \<open>
  An element of \<^verbatim>\<open>rate.items\<close>. Only the fields the handler reads are kept;
  \<^verbatim>\<open>product_type\<close> and \<^verbatim>\<open>title\<close> may be missing from the JSON object.
\<close>

record line_item =
  variant_id :: int
  price :: int
  quantity :: int
  product_type :: "string option"
  title :: "string option"

record rate_obj =
  items :: "line_item list option"

record request_body =
  rate :: "rate_obj option"

datatype rate_quote =
  Quote (service_name: string) (service_code: string) (total_price: string)
        (quote_currency: string) (quote_description: string)

text \<open>
  What \<^verbatim>\<open>res.status(..).json(..)\<close> sends: the HTTP status and the two keys
  the body may carry, \<^verbatim>\<open>error\<close> and \<^verbatim>\<open>rates\<close>. A key that the
  handler does not write is \<open>None\<close>.
\<close>

record response =
  status :: nat
  error :: "string option"
  rates :: "rate_quote list option"

subsection \<open>The world outside the process\<close>

datatype js_error = NetworkError | HttpStatusError | SyntaxError | TypeError | RangeError | RedisError

text \<open>
  The outcome of \<^verbatim>\<open>await fetch(..)\<close> followed by \<^verbatim>\<open>await response.json()\<close>:
  the request fails on the network, the response is not \<^verbatim>\<open>ok\<close>, the body is
  not JSON, or the body parses.
\<close>

datatype 'a fetched = FetchRejects | NotOk nat | JsonRejects | Json 'a

record variant_obj =
  product_id :: "int option"

record variant_body =
  variant :: "variant_obj option"

record preproduct_body =
  on_preorder :: "bool option"

text \<open>
  A node of the GraphQL answer: its \<^verbatim>\<open>id\<close> and, when the metafield exists,
  \<^verbatim>\<open>metafield.value\<close>.
\<close>

record gql_node =
  node_id :: "string option"
  metafield :: "string option"

record gql_data =
  nodes :: "gql_node option list option"

record gql_body =
  data :: "gql_data option"

text \<open>
  The Redis store maps a key to the TTL it was written with and its value. The only
  writer of the keys read here is \<^verbatim>\<open>redis.setEx(key, CACHE_TTL, JSON.stringify(b))\<close>
  with a boolean \<open>b\<close>, and \<^verbatim>\<open>JSON.parse\<close> gives \<open>b\<close> back, so the stored text is
  modelled by the boolean itself.
\<close>

type_synonym redis = "string \<rightharpoonup> nat \<times> bool"

type_synonym statuses = "string \<rightharpoonup> bool"

text \<open>
  Everything the handlers await: whether a Redis command on a key rejects, and what the
  three HTTP endpoints answer. Within one run of a handler an answer depends on the
  request only, not on when it is made.
\<close>

record world =
  redis_get_rejects :: "string \<Rightarrow> bool"
  redis_setEx_rejects :: "string \<Rightarrow> bool"
  redis_del_rejects :: "string \<Rightarrow> bool"
  variants_endpoint :: "string \<Rightarrow> variant_body fetched"
  preproduct_endpoint :: "int \<Rightarrow> string \<Rightarrow> preproduct_body fetched"
  graphql_endpoint :: "string list \<Rightarrow> gql_body fetched"

definition redis_get :: "world \<Rightarrow> redis \<Rightarrow> string \<Rightarrow> js_error + bool option" where
  "redis_get w r k = (if redis_get_rejects w k then Inl RedisError else Inr (map_option snd (r k)))"

definition redis_setEx :: "world \<Rightarrow> redis \<Rightarrow> string \<Rightarrow> nat \<Rightarrow> bool \<Rightarrow> js_error + redis" where
  "redis_setEx w r k ttl v = (if redis_setEx_rejects w k then Inl RedisError else Inr (r(k \<mapsto> (ttl, v))))"

definition redis_del :: "world \<Rightarrow> redis \<Rightarrow> string \<Rightarrow> js_error + redis" where
  "redis_del w r k = (if redis_del_rejects w k then Inl RedisError else Inr (r(k := None)))"

subsection \<open>Status cache\<close>

text \<open>
  The cache key of a variant: \<^verbatim>\<open>`preproduct_variant_${variantId}`\<close> in the two-hop
  variant (lines 123, 138, 633) and \<^verbatim>\<open>`variant_po_${variantId}`\<close> in the batch
  variant (lines 847, 862, 1155).
\<close>

definition cacheKey_twohop :: "string \<Rightarrow> string" where
  "cacheKey_twohop variantId = ''preproduct_variant_'' @ variantId"

definition cacheKey_batch :: "string \<Rightarrow> string" where
  "cacheKey_batch variantId = ''variant_po_'' @ variantId"

text \<open>
  \<^verbatim>\<open>getCachedVariantPreOrder\<close> (lines 121-134): a read error is logged and the
  entry counts as absent (\<^verbatim>\<open>null\<close>).
\<close>

definition getCachedVariantPreOrder :: "world \<Rightarrow> redis \<Rightarrow> string \<Rightarrow> bool option" where
  "getCachedVariantPreOrder w r variantId =
     (let cacheKey = cacheKey_twohop variantId
      in case redis_get w r cacheKey of
           Inl e \<Rightarrow> None
         | Inr cached \<Rightarrow> cached)"

text \<open>\<^verbatim>\<open>setCachedVariantPreOrder\<close> (lines 136-143): a write error is logged and dropped.\<close>

definition setCachedVariantPreOrder :: "world \<Rightarrow> redis \<Rightarrow> string \<Rightarrow> bool \<Rightarrow> redis" where
  "setCachedVariantPreOrder w r variantId isPreOrder =
     (let cacheKey = cacheKey_twohop variantId
      in case redis_setEx w r cacheKey CACHE_TTL isPreOrder of
           Inl e \<Rightarrow> r
         | Inr r' \<Rightarrow> r')"

text \<open>\<^verbatim>\<open>getCachedVariantMetafield\<close> and \<^verbatim>\<open>setCachedVariantMetafield\<close> (lines 845-867).\<close>

definition getCachedVariantMetafield :: "world \<Rightarrow> redis \<Rightarrow> string \<Rightarrow> bool option" where
  "getCachedVariantMetafield w r variantId =
     (let cacheKey = cacheKey_batch variantId
      in case redis_get w r cacheKey of
           Inl e \<Rightarrow> None
         | Inr cached \<Rightarrow> cached)"

definition setCachedVariantMetafield :: "world \<Rightarrow> redis \<Rightarrow> string \<Rightarrow> bool \<Rightarrow> redis" where
  "setCachedVariantMetafield w r variantId isPreOrder =
     (let cacheKey = cacheKey_batch variantId
      in case redis_setEx w r cacheKey CACHE_TTL isPreOrder of
           Inl e \<Rightarrow> r
         | Inr r' \<Rightarrow> r')"

subsection \<open>Status resolver, two-hop variant\<close>

text \<open>
  \<^verbatim>\<open>getProductIdFromVariant\<close> (lines 146-164). The body of the \<^verbatim>\<open>try\<close> throws
  when the request fails, when the response is not ok, when the body is not JSON and
  when \<^verbatim>\<open>data.variant\<close> is undefined; the \<^verbatim>\<open>catch\<close> returns \<^verbatim>\<open>null\<close>.
\<close>

definition getProductIdFromVariant_try :: "world \<Rightarrow> string \<Rightarrow> js_error + int option" where
  "getProductIdFromVariant_try w variantId =
     (case variants_endpoint w variantId of
        FetchRejects \<Rightarrow> Inl NetworkError
      | NotOk st \<Rightarrow> Inl HttpStatusError
      | JsonRejects \<Rightarrow> Inl SyntaxError
      | Json d \<Rightarrow>
          (case variant d of
             None \<Rightarrow> Inl TypeError
           | Some v \<Rightarrow> Inr (product_id v)))"

definition getProductIdFromVariant :: "world \<Rightarrow> string \<Rightarrow> int option" where
  "getProductIdFromVariant w variantId =
     (case getProductIdFromVariant_try w variantId of
        Inl e \<Rightarrow> None
      | Inr productId \<Rightarrow> productId)"

text \<open>
  \<^verbatim>\<open>fetchPreProductStatus\<close> (lines 167-195): \<^verbatim>\<open>data.on_preorder || false\<close>, and
  \<^verbatim>\<open>false\<close> from the \<^verbatim>\<open>catch\<close>.
\<close>

definition fetchPreProductStatus_try :: "world \<Rightarrow> int \<Rightarrow> string \<Rightarrow> js_error + bool" where
  "fetchPreProductStatus_try w productId variantId =
     (case preproduct_endpoint w productId variantId of
        FetchRejects \<Rightarrow> Inl NetworkError
      | NotOk st \<Rightarrow> Inl HttpStatusError
      | JsonRejects \<Rightarrow> Inl SyntaxError
      | Json d \<Rightarrow>
          (case on_preorder d of
             None \<Rightarrow> Inr False
           | Some b \<Rightarrow> Inr (b \<or> False)))"

definition fetchPreProductStatus :: "world \<Rightarrow> int \<Rightarrow> string \<Rightarrow> bool" where
  "fetchPreProductStatus w productId variantId =
     (case fetchPreProductStatus_try w productId variantId of
        Inl e \<Rightarrow> False
      | Inr b \<Rightarrow> b)"

text \<open>The first loop of \<^verbatim>\<open>getVariantPreOrderStatus\<close> (lines 202-209).\<close>

fun check_cache_twohop ::
  "world \<Rightarrow> redis \<Rightarrow> string list \<Rightarrow> statuses \<times> string list \<Rightarrow> statuses \<times> string list" where
  "check_cache_twohop w r [] acc = acc"
| "check_cache_twohop w r (variantId # rest) (results, uncachedVariants) =
     (case getCachedVariantPreOrder w r variantId of
        Some cached \<Rightarrow> check_cache_twohop w r rest (results(variantId \<mapsto> cached), uncachedVariants)
      | None \<Rightarrow> check_cache_twohop w r rest (results, uncachedVariants @ [variantId]))"

text \<open>
  The second loop (lines 215-239). \<^verbatim>\<open>if (productId)\<close> is false for
  \<^verbatim>\<open>null\<close>, \<^verbatim>\<open>undefined\<close> and \<open>0\<close>. None of the three awaited helpers
  rejects (each catches its own errors), so the \<^verbatim>\<open>catch\<close> of lines 234-238 has
  nothing to catch.
\<close>

fun resolve_twohop :: "world \<Rightarrow> string list \<Rightarrow> statuses \<times> redis \<Rightarrow> statuses \<times> redis" where
  "resolve_twohop w [] acc = acc"
| "resolve_twohop w (variantId # rest) (results, r) =
     (case getProductIdFromVariant w variantId of
        None \<Rightarrow>
          resolve_twohop w rest (results(variantId \<mapsto> False), setCachedVariantPreOrder w r variantId False)
      | Some productId \<Rightarrow>
          (if productId \<noteq> 0 then
             (let isPreOrder = fetchPreProductStatus w productId variantId
              in resolve_twohop w rest
                   (results(variantId \<mapsto> isPreOrder), setCachedVariantPreOrder w r variantId isPreOrder))
           else
             resolve_twohop w rest
               (results(variantId \<mapsto> False), setCachedVariantPreOrder w r variantId False)))"

text \<open>\<^verbatim>\<open>getVariantPreOrderStatus\<close> (lines 197-242).\<close>

definition getVariantPreOrderStatus_twohop ::
  "world \<Rightarrow> redis \<Rightarrow> string list \<Rightarrow> statuses \<times> redis" where
  "getVariantPreOrderStatus_twohop w r variantIds =
     (case check_cache_twohop w r variantIds (Map.empty, []) of
        (results, uncachedVariants) \<Rightarrow> resolve_twohop w uncachedVariants (results, r))"

subsection \<open>Status resolver, batch variant\<close>

text \<open>\<^verbatim>\<open>fetchVariantMetafields\<close> (lines 869-904): it has no \<^verbatim>\<open>catch\<close> of its own.\<close>

definition fetchVariantMetafields :: "world \<Rightarrow> string list \<Rightarrow> js_error + gql_body" where
  "fetchVariantMetafields w variantIds =
     (let gqlVariantIds = map (\<lambda>i. ''gid://shopify/ProductVariant/'' @ i) variantIds
      in case graphql_endpoint w gqlVariantIds of
           FetchRejects \<Rightarrow> Inl NetworkError
         | NotOk st \<Rightarrow> Inl HttpStatusError
         | JsonRejects \<Rightarrow> Inl SyntaxError
         | Json d \<Rightarrow> Inr d)"

fun check_cache_batch ::
  "world \<Rightarrow> redis \<Rightarrow> string list \<Rightarrow> statuses \<times> string list \<Rightarrow> statuses \<times> string list" where
  "check_cache_batch w r [] acc = acc"
| "check_cache_batch w r (variantId # rest) (results, uncachedIds) =
     (case getCachedVariantMetafield w r variantId of
        Some cached \<Rightarrow> check_cache_batch w r rest (results(variantId \<mapsto> cached), uncachedIds)
      | None \<Rightarrow> check_cache_batch w r rest (results, uncachedIds @ [variantId]))"

text \<open>
  The loop over \<^verbatim>\<open>gqlData.data.nodes\<close> (lines 926-934). A \<^verbatim>\<open>null\<close> node is
  skipped; a node without an \<^verbatim>\<open>id\<close> throws a TypeError at
  \<^verbatim>\<open>node.id.replace\<close>, and what the loop wrote before stays written. The first
  component is the error thrown, if any.
\<close>

fun process_nodes ::
  "world \<Rightarrow> gql_node option list \<Rightarrow> statuses \<times> redis \<Rightarrow> js_error option \<times> statuses \<times> redis" where
  "process_nodes w [] (results, r) = (None, results, r)"
| "process_nodes w (None # rest) (results, r) = process_nodes w rest (results, r)"
| "process_nodes w (Some node # rest) (results, r) =
     (case node_id node of
        None \<Rightarrow> (Some TypeError, results, r)
      | Some i \<Rightarrow>
          (let variantId = str_replace i ''gid://shopify/ProductVariant/'' [];
               isPreOrder = (case metafield node of Some v \<Rightarrow> v = ''true'' | None \<Rightarrow> False)
           in process_nodes w rest
                (results(variantId \<mapsto> isPreOrder), setCachedVariantMetafield w r variantId isPreOrder)))"

text \<open>Set false for any remaining uncached variants (lines 938-943).\<close>

fun fill_remaining :: "world \<Rightarrow> string list \<Rightarrow> statuses \<times> redis \<Rightarrow> statuses \<times> redis" where
  "fill_remaining w [] acc = acc"
| "fill_remaining w (variantId # rest) (results, r) =
     (if results variantId = None then
        fill_remaining w rest (results(variantId \<mapsto> False), setCachedVariantMetafield w r variantId False)
      else fill_remaining w rest (results, r))"

text \<open>The fallback of the \<^verbatim>\<open>catch\<close> (lines 947-949): no cache write.\<close>

fun fallback_false :: "string list \<Rightarrow> statuses \<Rightarrow> statuses" where
  "fallback_false [] results = results"
| "fallback_false (variantId # rest) results = fallback_false rest (results(variantId \<mapsto> False))"

text \<open>The \<^verbatim>\<open>try\<close> block of lines 922-943.\<close>

definition fetch_uncached_try ::
  "world \<Rightarrow> string list \<Rightarrow> statuses \<times> redis \<Rightarrow> js_error option \<times> statuses \<times> redis" where
  "fetch_uncached_try w uncachedIds acc =
     (case fetchVariantMetafields w uncachedIds of
        Inl e \<Rightarrow> (Some e, acc)
      | Inr gqlData \<Rightarrow>
          (case (case data gqlData of
                   None \<Rightarrow> (None, acc)
                 | Some d \<Rightarrow>
                     (case nodes d of
                        None \<Rightarrow> (None, acc)
                      | Some ns \<Rightarrow> process_nodes w ns acc)) of
             (Some e, acc') \<Rightarrow> (Some e, acc')
           | (None, acc') \<Rightarrow> (None, fill_remaining w uncachedIds acc')))"

text \<open>\<^verbatim>\<open>getVariantPreOrderStatus\<close> (lines 906-954).\<close>

definition getVariantPreOrderStatus_batch ::
  "world \<Rightarrow> redis \<Rightarrow> string list \<Rightarrow> statuses \<times> redis" where
  "getVariantPreOrderStatus_batch w r variantIds =
     (case check_cache_batch w r variantIds (Map.empty, []) of
        (results, uncachedIds) \<Rightarrow>
          (if length uncachedIds > 0 then
             (case fetch_uncached_try w uncachedIds (results, r) of
                (Some e, results', r') \<Rightarrow> (fallback_false uncachedIds results', r')
              | (None, results', r') \<Rightarrow> (results', r'))
           else (results, r)))"

subsection \<open>Rate endpoint, two-hop variant\<close>

text \<open>
  The gift-card test of lines 538-541 and 1061-1064:
  \<^verbatim>\<open>item.product_type === 'Gift Card' || item.title?.toLowerCase().includes('gift card')\<close>.
\<close>

definition isGiftCard :: "line_item \<Rightarrow> bool" where
  "isGiftCard item =
     (product_type item = Some ''Gift Card'' \<or>
      (case title item of
         None \<Rightarrow> False
       | Some t \<Rightarrow> str_includes (toLowerCase t) ''gift card''))"

text \<open>
  Get variant IDs (lines 556 and 1079):
  \<^verbatim>\<open>rate.items.map(item => item.variant_id.toString())\<close>.
\<close>

definition variantIds_of :: "line_item list \<Rightarrow> string list" where
  "variantIds_of its = map (\<lambda>item. toString (variant_id item)) its"

text \<open>Calculate subtotals (lines 562-575). The pair is (rtsSubtotal, preorderSubtotal).\<close>

fun subtotals_twohop :: "statuses \<Rightarrow> line_item list \<Rightarrow> int \<times> int \<Rightarrow> int \<times> int" where
  "subtotals_twohop variantStatuses [] acc = acc"
| "subtotals_twohop variantStatuses (item # rest) (rtsSubtotal, preorderSubtotal) =
     (let variantId = toString (variant_id item);
          isPreOrder = (case variantStatuses variantId of Some b \<Rightarrow> b | None \<Rightarrow> False);
          extended = price item * quantity item
      in if isPreOrder
         then subtotals_twohop variantStatuses rest (rtsSubtotal, preorderSubtotal + extended)
         else subtotals_twohop variantStatuses rest (rtsSubtotal + extended, preorderSubtotal))"

text \<open>The two \<^verbatim>\<open>rates.push\<close> blocks (lines 577-601).\<close>

definition emit_rates_twohop :: "appConfig \<Rightarrow> int \<times> int \<Rightarrow> rate_quote list" where
  "emit_rates_twohop cfg subtotals =
     (case subtotals of (rtsSubtotal, preorderSubtotal) \<Rightarrow>
        (let rates0 = [];
             rates1 =
               (if rtsSubtotal > 0 then
                  (let rtsPrice = (if rtsSubtotal \<ge> threshold cfg then 0 else feeUnderThreshold cfg)
                   in rates0 @ [Quote (rts (labels cfg)) ''RTS_STD'' (toString rtsPrice)
                                  (currency cfg) (description cfg)])
                else rates0);
             rates2 =
               (if preorderSubtotal > 0 then
                  (let poPrice = (if preorderSubtotal \<ge> threshold cfg then 0 else feeUnderThreshold cfg)
                   in rates1 @ [Quote (po (labels cfg)) ''PO_STD'' (toString poPrice)
                                  (currency cfg) (description cfg)])
                else rates1)
         in rates2))"

text \<open>Lines 561-601: everything the handler does once the statuses are resolved.\<close>

definition price_cart_twohop :: "appConfig \<Rightarrow> statuses \<Rightarrow> line_item list \<Rightarrow> rate_quote list" where
  "price_cart_twohop cfg variantStatuses its =
     emit_rates_twohop cfg (subtotals_twohop variantStatuses its (0, 0))"

text \<open>
  \<^verbatim>\<open>app.post('/rates')\<close> (lines 517-616). Every \<^typ>\<open>line_item\<close> has a
  \<^verbatim>\<open>variant_id\<close>, so nothing after the validation throws and the
  \<^verbatim>\<open>catch\<close> of lines 609-615 is not entered.
\<close>

definition rates_twohop :: "appConfig \<Rightarrow> world \<Rightarrow> redis \<Rightarrow> request_body \<Rightarrow> response \<times> redis" where
  "rates_twohop cfg w r body =
     (if killSwitch cfg then (\<lparr> status = 200, error = None, rates = Some [] \<rparr>, r)
      else
        (case (case rate body of None \<Rightarrow> None | Some rt \<Rightarrow> items rt) of
           None \<Rightarrow>
             (\<lparr> status = 400, error = Some ''Invalid rate request format'', rates = None \<rparr>, r)
         | Some its \<Rightarrow>
             (if length its = 0 then (\<lparr> status = 200, error = None, rates = Some [] \<rparr>, r)
              else if list_all isGiftCard its then
                (\<lparr> status = 200, error = None,
                   rates = Some [Quote ''Free Shipping'' ''GIFT_CARD_FREE'' ''0'' (currency cfg)
                                   ''Gift cards ship free''] \<rparr>, r)
              else
                (let variantIds = variantIds_of its
                 in case getVariantPreOrderStatus_twohop w r variantIds of
                      (variantStatuses, r') \<Rightarrow>
                        (\<lparr> status = 200, error = None,
                           rates = Some (price_cart_twohop cfg variantStatuses its) \<rparr>, r')))))"

subsection \<open>Rate endpoint, batch variant\<close>

text \<open>Calculate subtotals (lines 1085-1098).\<close>

fun subtotals_batch :: "statuses \<Rightarrow> line_item list \<Rightarrow> int \<times> int \<Rightarrow> int \<times> int" where
  "subtotals_batch variantStatuses [] acc = acc"
| "subtotals_batch variantStatuses (item # rest) (rtsSubtotal, preorderSubtotal) =
     (let variantId = toString (variant_id item);
          isPreOrder = (case variantStatuses variantId of Some b \<Rightarrow> b | None \<Rightarrow> False);
          extended = price item * quantity item
      in if isPreOrder
         then subtotals_batch variantStatuses rest (rtsSubtotal, preorderSubtotal + extended)
         else subtotals_batch variantStatuses rest (rtsSubtotal + extended, preorderSubtotal))"

text \<open>The two \<^verbatim>\<open>rates.push\<close> blocks (lines 1100-1124).\<close>

definition emit_rates_batch :: "appConfig \<Rightarrow> int \<times> int \<Rightarrow> rate_quote list" where
  "emit_rates_batch cfg subtotals =
     (case subtotals of (rtsSubtotal, preorderSubtotal) \<Rightarrow>
        (let rates0 = [];
             rates1 =
               (if rtsSubtotal > 0 then
                  (let rtsPrice = (if rtsSubtotal \<ge> threshold cfg then 0 else feeUnderThreshold cfg)
                   in rates0 @ [Quote (rts (labels cfg)) ''RTS_STD'' (toString rtsPrice)
                                  (currency cfg) (description cfg)])
                else rates0);
             rates2 =
               (if preorderSubtotal > 0 then
                  (let poPrice = (if preorderSubtotal \<ge> threshold cfg then 0 else feeUnderThreshold cfg)
                   in rates1 @ [Quote (po (labels cfg)) ''PO_STD'' (toString poPrice)
                                  (currency cfg) (description cfg)])
                else rates1)
         in rates2))"

text \<open>Lines 1084-1124.\<close>

definition price_cart_batch :: "appConfig \<Rightarrow> statuses \<Rightarrow> line_item list \<Rightarrow> rate_quote list" where
  "price_cart_batch cfg variantStatuses its =
     emit_rates_batch cfg (subtotals_batch variantStatuses its (0, 0))"

text \<open>\<^verbatim>\<open>app.post('/rates')\<close> (lines 1040-1138).\<close>

definition rates_batch :: "appConfig \<Rightarrow> world \<Rightarrow> redis \<Rightarrow> request_body \<Rightarrow> response \<times> redis" where
  "rates_batch cfg w r body =
     (if killSwitch cfg then (\<lparr> status = 200, error = None, rates = Some [] \<rparr>, r)
      else
        (case (case rate body of None \<Rightarrow> None | Some rt \<Rightarrow> items rt) of
           None \<Rightarrow>
             (\<lparr> status = 400, error = Some ''Invalid rate request format'', rates = None \<rparr>, r)
         | Some its \<Rightarrow>
             (if length its = 0 then (\<lparr> status = 200, error = None, rates = Some [] \<rparr>, r)
              else if list_all isGiftCard its then
                (\<lparr> status = 200, error = None,
                   rates = Some [Quote ''Free Shipping'' ''GIFT_CARD_FREE'' ''0'' (currency cfg)
                                   ''Gift cards ship free''] \<rparr>, r)
              else
                (let variantIds = variantIds_of its
                 in case getVariantPreOrderStatus_batch w r variantIds of
                      (variantStatuses, r') \<Rightarrow>
                        (\<lparr> status = 200, error = None,
                           rates = Some (price_cart_batch cfg variantStatuses its) \<rparr>, r')))))"

subsection \<open>Product-update webhook\<close>

text \<open>
  Library functions the webhook relies on, taken as parameters:
  \<^verbatim>\<open>crypto.createHmac('sha256', key).update(data).digest()\<close>, the base64 codec of
  \<^verbatim>\<open>digest('base64')\<close> and \<^verbatim>\<open>Buffer.from(s, 'base64')\<close>, and
  \<^verbatim>\<open>JSON.parse\<close> on a product payload.
\<close>

record webhook_variant =
  wv_id :: int

text \<open>
  A parsed payload: \<^verbatim>\<open>product.variants\<close> may be missing, and an element of the
  array may be \<^verbatim>\<open>null\<close>. \<open>Inr None\<close> from the parser is the JSON value
  \<^verbatim>\<open>null\<close>.
\<close>

record product =
  variants :: "webhook_variant option list option"

record platform =
  hmac_sha256 :: "string \<Rightarrow> string \<Rightarrow> string"
  base64_encode :: "string \<Rightarrow> string"
  base64_decode :: "string \<Rightarrow> string"
  JSON_parse :: "string \<Rightarrow> js_error + product option"

record process_env =
  SHOPIFY_WEBHOOK_SECRET :: "string option"

text \<open>\<^verbatim>\<open>crypto.timingSafeEqual\<close> throws on buffers of different length.\<close>

definition timingSafeEqual :: "string \<Rightarrow> string \<Rightarrow> js_error + bool" where
  "timingSafeEqual a b = (if length a \<noteq> length b then Inl RangeError else Inr (a = b))"

text \<open>
  A request to the webhook: whether its content type is \<^verbatim>\<open>application/json\<close>, the
  bytes of its body, and its \<^verbatim>\<open>X-Shopify-Hmac-Sha256\<close> header. The body of a
  notification is the JSON text of a product object.
\<close>

record webhook_request =
  json_content_type :: bool
  raw_body :: string
  hmac_header :: "string option"

text \<open>
  What \<^verbatim>\<open>req.body\<close> can hold: the raw bytes, as \<^verbatim>\<open>express.raw\<close> delivers
  them, or an object, as \<^verbatim>\<open>express.json\<close> delivers it (the parsed payload, or
  \<^verbatim>\<open>{}\<close> when it parsed nothing). The handler uses the body only through
  \<^verbatim>\<open>update(data, 'utf8')\<close> and \<^verbatim>\<open>toString()\<close>, so the content of the
  object is not kept.
\<close>

datatype req_body = Buffer string | Object

text \<open>
  \<^verbatim>\<open>app.use(express.json({ limit: '10mb' }))\<close> (lines 45 and 805) is mounted for
  every route and so runs before the middleware of any route. On a request of content
  type \<^verbatim>\<open>application/json\<close> with a body it parses the body, stores the object in
  \<^verbatim>\<open>req.body\<close> and marks the request as parsed; text that is not JSON, or not an
  object, is an error that goes to the error middleware (lines 729-735 and 1229-1235).
  On any other request it parses nothing. The pair is \<^verbatim>\<open>req.body\<close> and the mark.
\<close>

definition express_json :: "platform \<Rightarrow> webhook_request \<Rightarrow> js_error + req_body \<times> bool" where
  "express_json pf rq =
     (if \<not> json_content_type rq \<or> raw_body rq = [] then Inr (Object, False)
      else
        (case JSON_parse pf (raw_body rq) of
           Inl e \<Rightarrow> Inl e
         | Inr None \<Rightarrow> Inl SyntaxError
         | Inr (Some parsed) \<Rightarrow> Inr (Object, True)))"

text \<open>
  \<^verbatim>\<open>express.raw({ type: 'application/json' })\<close>, the middleware of the route (lines
  619 and 1141): it leaves a request alone that is marked as parsed, that has no body
  or whose content type is not \<^verbatim>\<open>application/json\<close>; otherwise it stores the raw
  bytes in \<^verbatim>\<open>req.body\<close>.
\<close>

definition express_raw :: "webhook_request \<Rightarrow> req_body \<times> bool \<Rightarrow> req_body \<times> bool" where
  "express_raw rq st =
     (case st of
        (body, parsed) \<Rightarrow>
          (if parsed then (body, parsed)
           else if \<not> json_content_type rq \<or> raw_body rq = [] then (body, parsed)
           else (Buffer (raw_body rq), True)))"

text \<open>
  \<^verbatim>\<open>verifyWebhook\<close> (lines 104-119 and 828-843). An unset or empty secret
  disables the verification. \<^verbatim>\<open>update(data, 'utf8')\<close> accepts a string or a
  buffer and throws a TypeError on an object. \<^verbatim>\<open>Buffer.from(undefined, 'base64')\<close>
  throws a TypeError when the signature header is missing.
\<close>

definition verifyWebhook ::
  "platform \<Rightarrow> process_env \<Rightarrow> req_body \<Rightarrow> string option \<Rightarrow> js_error + bool" where
  "verifyWebhook pf env d hmacHeader =
     (case SHOPIFY_WEBHOOK_SECRET env of
        None \<Rightarrow> Inr True
      | Some secret \<Rightarrow>
          (if secret = [] then Inr True
           else
             (case d of
                Object \<Rightarrow> Inl TypeError
              | Buffer bytes \<Rightarrow>
                  (let calculated = base64_encode pf (hmac_sha256 pf secret bytes)
                   in case hmacHeader of
                        None \<Rightarrow> Inl TypeError
                      | Some h \<Rightarrow>
                          timingSafeEqual (base64_decode pf calculated) (base64_decode pf h)))))"

text \<open>
  \<^verbatim>\<open>JSON.parse(body.toString())\<close> (lines 628 and 1150). A buffer gives its text.
  An object gives \<^verbatim>\<open>[object Object]\<close>, which is not JSON.
\<close>

definition parse_body :: "platform \<Rightarrow> req_body \<Rightarrow> js_error + product option" where
  "parse_body pf body =
     (case body of
        Buffer bytes \<Rightarrow> JSON_parse pf bytes
      | Object \<Rightarrow> Inl SyntaxError)"

text \<open>
  The loop over \<^verbatim>\<open>product.variants\<close> (lines 632-639 and 1154-1161), for the
  cache key of the variant. A failing \<^verbatim>\<open>redis.del\<close> is logged and skipped; a
  \<^verbatim>\<open>null\<close> element throws at \<^verbatim>\<open>variant.id\<close>, after the deletions made
  so far.
\<close>

fun invalidate_variants ::
  "(string \<Rightarrow> string) \<Rightarrow> world \<Rightarrow> webhook_variant option list \<Rightarrow> redis \<Rightarrow> js_error option \<times> redis" where
  "invalidate_variants key w [] r = (None, r)"
| "invalidate_variants key w (None # rest) r = (Some TypeError, r)"
| "invalidate_variants key w (Some v # rest) r =
     (let cacheKey = key (toString (wv_id v))
      in case redis_del w r cacheKey of
           Inl e \<Rightarrow> invalidate_variants key w rest r
         | Inr r' \<Rightarrow> invalidate_variants key w rest r')"

text \<open>
  The handler of \<^verbatim>\<open>app.post('/webhook/product-update')\<close> (lines 619-649 and
  1141-1171), on the header and the \<^verbatim>\<open>req.body\<close> it finds. The result is the
  status, the text sent and the store afterwards.
\<close>

definition webhook_handler ::
  "(string \<Rightarrow> string) \<Rightarrow> platform \<Rightarrow> process_env \<Rightarrow> world \<Rightarrow> redis \<Rightarrow> string option \<Rightarrow> req_body
     \<Rightarrow> (nat \<times> string) \<times> redis" where
  "webhook_handler key pf env w r hmac body =
     (case verifyWebhook pf env body hmac of
        Inl e \<Rightarrow> ((500, ''Internal Server Error''), r)
      | Inr False \<Rightarrow> ((401, ''Unauthorized''), r)
      | Inr True \<Rightarrow>
          (case parse_body pf body of
             Inl e \<Rightarrow> ((500, ''Internal Server Error''), r)
           | Inr None \<Rightarrow> ((500, ''Internal Server Error''), r)
           | Inr (Some product) \<Rightarrow>
               (case variants product of
                  None \<Rightarrow> ((200, ''OK''), r)
                | Some vs \<Rightarrow>
                    (case invalidate_variants key w vs r of
                       (Some e, r') \<Rightarrow> ((500, ''Internal Server Error''), r')
                     | (None, r') \<Rightarrow> ((200, ''OK''), r')))))"

text \<open>
  The route as the application runs it: the global \<^verbatim>\<open>express.json\<close>, then the
  route's \<^verbatim>\<open>express.raw\<close>, then the handler. An error of \<^verbatim>\<open>express.json\<close>
  is answered by the error middleware with the status 500 and the error
  \<^verbatim>\<open>Internal server error\<close>.
\<close>

definition webhook_product_update ::
  "(string \<Rightarrow> string) \<Rightarrow> platform \<Rightarrow> process_env \<Rightarrow> world \<Rightarrow> redis \<Rightarrow> webhook_request
     \<Rightarrow> (nat \<times> string) \<times> redis" where
  "webhook_product_update key pf env w r rq =
     (case express_json pf rq of
        Inl e \<Rightarrow> ((500, ''Internal server error''), r)
      | Inr st \<Rightarrow> webhook_handler key pf env w r (hmac_header rq) (fst (express_raw rq st)))"

definition webhook_product_update_twohop ::
  "platform \<Rightarrow> process_env \<Rightarrow> world \<Rightarrow> redis \<Rightarrow> webhook_request \<Rightarrow> (nat \<times> string) \<times> redis" where
  "webhook_product_update_twohop = webhook_product_update cacheKey_twohop"

definition webhook_product_update_batch ::
  "platform \<Rightarrow> process_env \<Rightarrow> world \<Rightarrow> redis \<Rightarrow> webhook_request \<Rightarrow> (nat \<times> string) \<times> redis" where
  "webhook_product_update_batch = webhook_product_update cacheKey_batch"

subsection \<open>Buckets, in the words of the specification\<close>

text \<open>
  The specification speaks of two buckets of line items. The handlers never build them:
  they keep two running sums. The definitions of this subsection follow the
  specification (an item is pre-order when its status is true, ready-to-ship when its
  status is absent or false) and are compared with the loops of the source below.
\<close>

definition is_preorder :: "statuses \<Rightarrow> line_item \<Rightarrow> bool" where
  "is_preorder st item = (st (toString (variant_id item)) = Some True)"

definition rts_bucket :: "statuses \<Rightarrow> line_item list \<Rightarrow> line_item list" where
  "rts_bucket st its = filter (\<lambda>item. \<not> is_preorder st item) its"

definition po_bucket :: "statuses \<Rightarrow> line_item list \<Rightarrow> line_item list" where
  "po_bucket st its = filter (is_preorder st) its"

definition bucket_subtotal :: "line_item list \<Rightarrow> int" where
  "bucket_subtotal its = sum_list (map (\<lambda>item. price item * quantity item) its)"

text \<open>
  Steps 5 and 6 of the rate engine as specified: no quote for a subtotal that is not
  positive, otherwise one quote, free at or above the threshold.
\<close>

definition bucket_quote :: "appConfig \<Rightarrow> string \<Rightarrow> string \<Rightarrow> int \<Rightarrow> rate_quote list" where
  "bucket_quote cfg label code subtotal =
     (if subtotal > 0 then
        [Quote label code (toString (if subtotal \<ge> threshold cfg then 0 else feeUnderThreshold cfg))
           (currency cfg) (description cfg)]
      else [])"

text \<open>The rate list as specified: the ready-to-ship quote, if any, then the pre-order quote, if any.\<close>

definition specified_quotes :: "appConfig \<Rightarrow> statuses \<Rightarrow> line_item list \<Rightarrow> rate_quote list" where
  "specified_quotes cfg st its =
     bucket_quote cfg (rts (labels cfg)) ''RTS_STD'' (bucket_subtotal (rts_bucket st its)) @
     bucket_quote cfg (po (labels cfg)) ''PO_STD'' (bucket_subtotal (po_bucket st its))"

subsection \<open>Unresolved variants and valid signatures, in the words of the specification\<close>

text \<open>
  What the two external calls of the two-hop variant say about a variant: \<open>None\<close> when
  it cannot be resolved (the product lookup fails or gives no product id, or the
  PreProduct call fails).
\<close>

definition external_status_twohop :: "world \<Rightarrow> string \<Rightarrow> bool option" where
  "external_status_twohop w variantId =
     (case getProductIdFromVariant_try w variantId of
        Inl e \<Rightarrow> None
      | Inr None \<Rightarrow> None
      | Inr (Some productId) \<Rightarrow>
          (if productId = 0 then None
           else (case fetchPreProductStatus_try w productId variantId of
                   Inl e \<Rightarrow> None
                 | Inr b \<Rightarrow> Some b)))"

text \<open>\<^verbatim>\<open>x || false\<close> on an optional boolean.\<close>

definition or_false :: "bool option \<Rightarrow> bool" where
  "or_false x = (case x of Some b \<Rightarrow> b | None \<Rightarrow> False)"

text \<open>
  The nodes the batch variant iterates over: the GraphQL request may throw; an answer
  without \<^verbatim>\<open>data\<close> or without \<^verbatim>\<open>data.nodes\<close> has no nodes.
\<close>

definition answered_nodes :: "world \<Rightarrow> string list \<Rightarrow> js_error + gql_node option list" where
  "answered_nodes w uncachedIds =
     (case fetchVariantMetafields w uncachedIds of
        Inl e \<Rightarrow> Inl e
      | Inr gqlData \<Rightarrow>
          (case data gqlData of
             None \<Rightarrow> Inr []
           | Some d \<Rightarrow> (case nodes d of None \<Rightarrow> Inr [] | Some ns \<Rightarrow> Inr ns)))"

definition node_lacks_id :: "gql_node option \<Rightarrow> bool" where
  "node_lacks_id n = (case n of None \<Rightarrow> False | Some node \<Rightarrow> node_id node = None)"

definition node_answers :: "string \<Rightarrow> gql_node option \<Rightarrow> bool" where
  "node_answers v n =
     (case n of
        None \<Rightarrow> False
      | Some node \<Rightarrow>
          (case node_id node of
             None \<Rightarrow> False
           | Some i \<Rightarrow> str_replace i ''gid://shopify/ProductVariant/'' [] = v))"

text \<open>
  In the batch variant an uncached variant cannot be resolved when the request throws,
  when a node of the answer is malformed (it has no id), or when no node of the answer
  is about it.
\<close>

definition unresolved_batch :: "world \<Rightarrow> string list \<Rightarrow> string \<Rightarrow> bool" where
  "unresolved_batch w uncachedIds v =
     (case answered_nodes w uncachedIds of
        Inl e \<Rightarrow> True
      | Inr ns \<Rightarrow> list_ex node_lacks_id ns \<or> list_all (\<lambda>n. \<not> node_answers v n) ns)"

text \<open>The request succeeds, every node is well formed, and none is about the variant.\<close>

definition batch_unanswered :: "world \<Rightarrow> string list \<Rightarrow> string \<Rightarrow> bool" where
  "batch_unanswered w uncachedIds v =
     (case answered_nodes w uncachedIds of
        Inl e \<Rightarrow> False
      | Inr ns \<Rightarrow> list_all (\<lambda>n. \<not> node_lacks_id n \<and> \<not> node_answers v n) ns)"

text \<open>
  The signature header is valid for the payload: it decodes to the bytes that the
  base64 text of the HMAC-SHA256 of the payload under the secret decodes to.
\<close>

definition signature_valid :: "platform \<Rightarrow> string \<Rightarrow> string \<Rightarrow> string option \<Rightarrow> bool" where
  "signature_valid pf secret body hmac =
     (case hmac of
        None \<Rightarrow> False
      | Some h \<Rightarrow>
          base64_decode pf h = base64_decode pf (base64_encode pf (hmac_sha256 pf secret body)))"

subsection \<open>Concrete worlds and carts\<close>

text \<open>Redis rejects every command and every HTTP request fails.\<close>

definition offline_world :: world where
  "offline_world =
     \<lparr> redis_get_rejects = (\<lambda>k. True), redis_setEx_rejects = (\<lambda>k. True),
       redis_del_rejects = (\<lambda>k. True),
       variants_endpoint = (\<lambda>v. FetchRejects),
       preproduct_endpoint = (\<lambda>p v. FetchRejects),
       graphql_endpoint = (\<lambda>ids. FetchRejects) \<rparr>"

text \<open>Redis works and every HTTP request fails.\<close>

definition sources_down_world :: world where
  "sources_down_world =
     \<lparr> redis_get_rejects = (\<lambda>k. False), redis_setEx_rejects = (\<lambda>k. False),
       redis_del_rejects = (\<lambda>k. False),
       variants_endpoint = (\<lambda>v. FetchRejects),
       preproduct_endpoint = (\<lambda>p v. FetchRejects),
       graphql_endpoint = (\<lambda>ids. FetchRejects) \<rparr>"

text \<open>
  Redis works, every variant belongs to product 123456, and variant 789013 is the only
  one on pre-order.
\<close>

definition shop_world :: world where
  "shop_world =
     \<lparr> redis_get_rejects = (\<lambda>k. False), redis_setEx_rejects = (\<lambda>k. False),
       redis_del_rejects = (\<lambda>k. False),
       variants_endpoint = (\<lambda>v. Json \<lparr> variant = Some \<lparr> product_id = Some 123456 \<rparr> \<rparr>),
       preproduct_endpoint = (\<lambda>p v. Json \<lparr> on_preorder = Some (v = ''789013'') \<rparr>),
       graphql_endpoint =
         (\<lambda>ids. Json \<lparr> data = Some \<lparr> nodes = Some (map (\<lambda>g. Some \<lparr> node_id = Some g,
              metafield = (if g = ''gid://shopify/ProductVariant/789013'' then Some ''true''
                           else None) \<rparr>) ids) \<rparr> \<rparr>) \<rparr>"

definition in_stock_item :: line_item where
  "in_stock_item =
     \<lparr> variant_id = 789012, price = 3000, quantity = 1, product_type = None, title = None \<rparr>"

definition preorder_item :: line_item where
  "preorder_item =
     \<lparr> variant_id = 789013, price = 6000, quantity = 1, product_type = None, title = None \<rparr>"

definition gift_card_item :: line_item where
  "gift_card_item =
     \<lparr> variant_id = 789014, price = 5000, quantity = 1, product_type = Some ''Gift Card'',
       title = None \<rparr>"

definition titled_gift_card_item :: line_item where
  "titled_gift_card_item =
     \<lparr> variant_id = 789015, price = 2500, quantity = 2, product_type = None,
       title = Some ''Holiday GIFT Card'' \<rparr>"

definition cart :: "line_item list \<Rightarrow> request_body" where
  "cart its = \<lparr> rate = Some \<lparr> items = Some its \<rparr> \<rparr>"

definition no_rate_body :: request_body where
  "no_rate_body = \<lparr> rate = None \<rparr>"

definition no_items_body :: request_body where
  "no_items_body = \<lparr> rate = Some \<lparr> items = None \<rparr> \<rparr>"

definition promoConfig :: appConfig where
  "promoConfig = defaultConfig \<lparr> killSwitch := True \<rparr>"

text \<open>Redis works; the catalog answers, but without the data asked for.\<close>

definition silent_catalog_world :: world where
  "silent_catalog_world =
     \<lparr> redis_get_rejects = (\<lambda>k. False), redis_setEx_rejects = (\<lambda>k. False),
       redis_del_rejects = (\<lambda>k. False),
       variants_endpoint = (\<lambda>v. Json \<lparr> variant = None \<rparr>),
       preproduct_endpoint = (\<lambda>p v. Json \<lparr> on_preorder = None \<rparr>),
       graphql_endpoint = (\<lambda>ids. Json \<lparr> data = Some \<lparr> nodes = Some [None] \<rparr> \<rparr>) \<rparr>"

text \<open>
  A stand-in for the library functions, enough to run the webhook: the payload
  \<^verbatim>\<open>P1\<close> parses to a product with the variant 1, and nothing else parses.
\<close>

definition toy_platform :: platform where
  "toy_platform =
     \<lparr> hmac_sha256 = (\<lambda>k d. k @ d),
       base64_encode = (\<lambda>s. s),
       base64_decode = (\<lambda>s. s),
       JSON_parse = (\<lambda>s. if s = ''P1'' then Inr (Some \<lparr> variants = Some [Some \<lparr> wv_id = 1 \<rparr>] \<rparr>)
                         else Inl SyntaxError) \<rparr>"

definition secret_env :: process_env where
  "secret_env = \<lparr> SHOPIFY_WEBHOOK_SECRET = Some ''k'' \<rparr>"

text \<open>A cache that holds variant 1 as pre-order, under the key of either variant.\<close>

definition warm_cache :: redis where
  "warm_cache = [cacheKey_twohop ''1'' \<mapsto> (CACHE_TTL, True), cacheKey_batch ''1'' \<mapsto> (CACHE_TTL, True)]"

text \<open>
  A notification about the product with the variant 1, of content type
  \<^verbatim>\<open>application/json\<close>, with the signature that is valid under the secret
  \<^verbatim>\<open>k\<close>.
\<close>

definition signed_notification :: webhook_request where
  "signed_notification =
     \<lparr> json_content_type = True, raw_body = ''P1'', hmac_header = Some ''kP1'' \<rparr>"

section \<open>Verification\<close>

subsection \<open>The loops of the source against the specified buckets\<close>

lemma subtotals_twohop_buckets:
  "subtotals_twohop st its (a, b) =
     (a + bucket_subtotal (rts_bucket st its), b + bucket_subtotal (po_bucket st its))"
proof (induction its arbitrary: a b)
  case Nil
  then show ?case by (simp add: bucket_subtotal_def rts_bucket_def po_bucket_def)
next
  case (Cons item rest)
  show ?case
  proof (cases "st (toString (variant_id item))")
    case None
    then show ?thesis
      using Cons.IH by (simp add: bucket_subtotal_def rts_bucket_def po_bucket_def is_preorder_def)
  next
    case (Some flag)
    then show ?thesis
      using Cons.IH by (cases flag) (simp_all add: bucket_subtotal_def rts_bucket_def po_bucket_def is_preorder_def)
  qed
qed

lemma subtotals_batch_buckets:
  "subtotals_batch st its (a, b) =
     (a + bucket_subtotal (rts_bucket st its), b + bucket_subtotal (po_bucket st its))"
proof (induction its arbitrary: a b)
  case Nil
  then show ?case by (simp add: bucket_subtotal_def rts_bucket_def po_bucket_def)
next
  case (Cons item rest)
  show ?case
  proof (cases "st (toString (variant_id item))")
    case None
    then show ?thesis
      using Cons.IH by (simp add: bucket_subtotal_def rts_bucket_def po_bucket_def is_preorder_def)
  next
    case (Some flag)
    then show ?thesis
      using Cons.IH by (cases flag) (simp_all add: bucket_subtotal_def rts_bucket_def po_bucket_def is_preorder_def)
  qed
qed

lemma emit_rates_twohop_quotes:
  "emit_rates_twohop cfg (a, b) =
     bucket_quote cfg (rts (labels cfg)) ''RTS_STD'' a @ bucket_quote cfg (po (labels cfg)) ''PO_STD'' b"
  by (simp add: emit_rates_twohop_def bucket_quote_def)

lemma emit_rates_batch_quotes:
  "emit_rates_batch cfg (a, b) =
     bucket_quote cfg (rts (labels cfg)) ''RTS_STD'' a @ bucket_quote cfg (po (labels cfg)) ''PO_STD'' b"
  by (simp add: emit_rates_batch_def bucket_quote_def)

lemma price_cart_twohop_quotes:
  "price_cart_twohop cfg st its =
     bucket_quote cfg (rts (labels cfg)) ''RTS_STD'' (bucket_subtotal (rts_bucket st its)) @
     bucket_quote cfg (po (labels cfg)) ''PO_STD'' (bucket_subtotal (po_bucket st its))"
  by (simp add: price_cart_twohop_def subtotals_twohop_buckets emit_rates_twohop_quotes)

lemma price_cart_batch_quotes:
  "price_cart_batch cfg st its =
     bucket_quote cfg (rts (labels cfg)) ''RTS_STD'' (bucket_subtotal (rts_bucket st its)) @
     bucket_quote cfg (po (labels cfg)) ''PO_STD'' (bucket_subtotal (po_bucket st its))"
  by (simp add: price_cart_batch_def subtotals_batch_buckets emit_rates_batch_quotes)


subsection \<open>Evaluations on the concrete worlds\<close>

lemma toString_789012: "toString 789012 = ''789012''"
  by (simp add: toString_def digits.simps digit_def)

lemma toString_789013: "toString 789013 = ''789013''"
  by (simp add: toString_def digits.simps digit_def)

lemma toString_0: "toString 0 = ''0''"
  by (simp add: toString_def digits.simps digit_def)

lemma toString_500: "toString 500 = ''500''"
  by (simp add: toString_def digits.simps digit_def)

lemma two_item_cart_ids:
  "variantIds_of [in_stock_item, preorder_item] = [''789012'', ''789013'']"
  by (simp add: variantIds_of_def in_stock_item_def preorder_item_def toString_789012 toString_789013)

lemma shop_statuses_twohop:
  "fst (getVariantPreOrderStatus_twohop shop_world Map.empty [''789012'', ''789013'']) =
     [''789012'' \<mapsto> False, ''789013'' \<mapsto> True]"
  by (simp add: shop_world_def getVariantPreOrderStatus_twohop_def
    getCachedVariantPreOrder_def cacheKey_twohop_def redis_get_def getProductIdFromVariant_def getProductIdFromVariant_try_def
    fetchPreProductStatus_def fetchPreProductStatus_try_def setCachedVariantPreOrder_def redis_setEx_def)

lemma shop_statuses_batch:
  "fst (getVariantPreOrderStatus_batch shop_world Map.empty [''789012'', ''789013'']) =
     [''789012'' \<mapsto> False, ''789013'' \<mapsto> True]"
  by (simp add: shop_world_def getVariantPreOrderStatus_batch_def fetch_uncached_try_def
    getCachedVariantMetafield_def cacheKey_batch_def redis_get_def fetchVariantMetafields_def
    setCachedVariantMetafield_def redis_setEx_def Let_def)

lemma two_item_cart_quotes:
  "specified_quotes defaultConfig [''789012'' \<mapsto> False, ''789013'' \<mapsto> True]
     [in_stock_item, preorder_item] =
   [Quote ''Ships Now (In-Stock)'' ''RTS_STD'' ''500'' ''USD'' ''Free over $50'',
    Quote ''Ships Later (Pre-Order)'' ''PO_STD'' ''0'' ''USD'' ''Free over $50'']"
  by (simp add: specified_quotes_def bucket_quote_def bucket_subtotal_def rts_bucket_def
      po_bucket_def is_preorder_def in_stock_item_def preorder_item_def defaultConfig_def
      toString_789012 toString_789013 toString_0 toString_500)

subsection \<open>The rate endpoint\<close>

text \<open>
  Claim C1. For a cart that is not empty and not made of gift cards only, with the kill
  switch off, both variants answer 200 with the rate list that holds one quote for each
  bucket whose subtotal is positive: the bucket's label, its service code
  (\<^verbatim>\<open>RTS_STD\<close> or \<^verbatim>\<open>PO_STD\<close>), the price \<open>0\<close> when the bucket's subtotal
  reaches the threshold and the configured fee otherwise, the configured currency and
  description. A bucket whose subtotal is not positive gives no quote, and the
  ready-to-ship quote comes before the pre-order quote. The buckets are those of the
  statuses the resolver returned for the cart's variant ids.
\<close>

theorem rates_quote_per_positive_bucket:
  assumes "\<not> killSwitch cfg"
    and "rate body = Some rt"
    and "items rt = Some its"
    and "its \<noteq> []"
    and "\<not> list_all isGiftCard its"
  shows "rates_twohop cfg w r body =
           (\<lparr> status = 200, error = None,
              rates = Some (specified_quotes cfg
                        (fst (getVariantPreOrderStatus_twohop w r (variantIds_of its))) its) \<rparr>,
            snd (getVariantPreOrderStatus_twohop w r (variantIds_of its)))
       \<and> rates_batch cfg w r body =
           (\<lparr> status = 200, error = None,
              rates = Some (specified_quotes cfg
                        (fst (getVariantPreOrderStatus_batch w r (variantIds_of its))) its) \<rparr>,
            snd (getVariantPreOrderStatus_batch w r (variantIds_of its)))"
  using assms
  by (simp add: rates_twohop_def rates_batch_def price_cart_twohop_quotes price_cart_batch_quotes
      specified_quotes_def variantIds_of_def split: prod.splits)

text \<open>
  Claim C1 at the cart of the specification's last example: one ready-to-ship item at
  3000 and one pre-order item at 6000, threshold 5000, fee 500.
\<close>

theorem rates_quote_per_positive_bucket_witness:
  "\<not> killSwitch defaultConfig
   \<and> rate (cart [in_stock_item, preorder_item]) = Some \<lparr> items = Some [in_stock_item, preorder_item] \<rparr>
   \<and> [in_stock_item, preorder_item] \<noteq> []
   \<and> \<not> list_all isGiftCard [in_stock_item, preorder_item]
   \<and> fst (rates_twohop defaultConfig shop_world Map.empty (cart [in_stock_item, preorder_item])) =
       \<lparr> status = 200, error = None,
         rates = Some [Quote ''Ships Now (In-Stock)'' ''RTS_STD'' ''500'' ''USD'' ''Free over $50'',
                       Quote ''Ships Later (Pre-Order)'' ''PO_STD'' ''0'' ''USD'' ''Free over $50''] \<rparr>
   \<and> fst (rates_batch defaultConfig shop_world Map.empty (cart [in_stock_item, preorder_item])) =
       \<lparr> status = 200, error = None,
         rates = Some [Quote ''Ships Now (In-Stock)'' ''RTS_STD'' ''500'' ''USD'' ''Free over $50'',
                       Quote ''Ships Later (Pre-Order)'' ''PO_STD'' ''0'' ''USD'' ''Free over $50''] \<rparr>"
proof -
  have k: "\<not> killSwitch defaultConfig"
    by (simp add: defaultConfig_def)
  have b: "rate (cart [in_stock_item, preorder_item]) = Some \<lparr> items = Some [in_stock_item, preorder_item] \<rparr>"
    by (simp add: cart_def)
  have i: "items \<lparr> items = Some [in_stock_item, preorder_item] \<rparr> = Some [in_stock_item, preorder_item]"
    by simp
  have n: "[in_stock_item, preorder_item] \<noteq> []"
    by simp
  have g: "\<not> list_all isGiftCard [in_stock_item, preorder_item]"
    by (simp add: isGiftCard_def in_stock_item_def)
  show ?thesis
    using rates_quote_per_positive_bucket [OF k b i n g, of shop_world Map.empty] k b n g
    by (simp add: two_item_cart_ids shop_statuses_twohop shop_statuses_batch two_item_cart_quotes)
qed

text \<open>
  Claim C2. With the kill switch on, both variants answer 200 with the empty rate list,
  whatever the body holds, and leave the cache alone.
\<close>

theorem kill_switch_empty_rates:
  assumes "killSwitch cfg"
  shows "rates_twohop cfg w r body = (\<lparr> status = 200, error = None, rates = Some [] \<rparr>, r)
       \<and> rates_batch cfg w r body = (\<lparr> status = 200, error = None, rates = Some [] \<rparr>, r)"
  using assms by (simp add: rates_twohop_def rates_batch_def)

text \<open>Claim C2 at a cart of two items, with the kill switch on.\<close>

theorem kill_switch_empty_rates_witness:
  "killSwitch promoConfig
   \<and> rates_twohop promoConfig shop_world Map.empty (cart [in_stock_item, preorder_item]) =
       (\<lparr> status = 200, error = None, rates = Some [] \<rparr>, Map.empty)
   \<and> rates_batch promoConfig shop_world Map.empty (cart [in_stock_item, preorder_item]) =
       (\<lparr> status = 200, error = None, rates = Some [] \<rparr>, Map.empty)"
proof -
  have k: "killSwitch promoConfig"
    by (simp add: promoConfig_def)
  show ?thesis
    using kill_switch_empty_rates [OF k, of shop_world Map.empty "cart [in_stock_item, preorder_item]"] k
    by simp
qed

text \<open>
  Claim C9. With the kill switch on, a body without a \<^verbatim>\<open>rate\<close> object or without
  \<^verbatim>\<open>rate.items\<close> is answered 200 with the empty rate list, not with the
  rejection: the kill switch is tested first.
\<close>

theorem kill_switch_precedes_validation:
  assumes "killSwitch cfg"
    and "rate body = None \<or> (\<exists>rt. rate body = Some rt \<and> items rt = None)"
  shows "fst (rates_twohop cfg w r body) = \<lparr> status = 200, error = None, rates = Some [] \<rparr>
       \<and> fst (rates_batch cfg w r body) = \<lparr> status = 200, error = None, rates = Some [] \<rparr>"
  using assms(1) by (simp add: rates_twohop_def rates_batch_def)

text \<open>Claim C9 at a body without a \<^verbatim>\<open>rate\<close> object.\<close>

theorem kill_switch_precedes_validation_witness:
  "killSwitch promoConfig
   \<and> rate no_rate_body = None
   \<and> fst (rates_twohop promoConfig shop_world Map.empty no_rate_body) =
       \<lparr> status = 200, error = None, rates = Some [] \<rparr>
   \<and> fst (rates_batch promoConfig shop_world Map.empty no_rate_body) =
       \<lparr> status = 200, error = None, rates = Some [] \<rparr>"
proof -
  have k: "killSwitch promoConfig"
    by (simp add: promoConfig_def)
  have b: "rate no_rate_body = None"
    by (simp add: no_rate_body_def)
  then have b': "rate no_rate_body = None \<or> (\<exists>rt. rate no_rate_body = Some rt \<and> items rt = None)"
    by simp
  show ?thesis
    using kill_switch_precedes_validation [OF k b', of shop_world Map.empty] k b
    by simp
qed

text \<open>
  Claim C7 says that a body without a \<^verbatim>\<open>rate\<close> object or an items list is
  always answered with a client error and an empty rate list. With the kill switch on the
  answer is 200; with the kill switch off the body of the 400 answer has no
  \<^verbatim>\<open>rates\<close> key.
\<close>

theorem malformed_request_not_always_rejected:
  "rate no_rate_body = None
   \<and> status (fst (rates_twohop promoConfig shop_world Map.empty no_rate_body)) = 200
   \<and> status (fst (rates_batch promoConfig shop_world Map.empty no_rate_body)) = 200
   \<and> \<not> killSwitch defaultConfig
   \<and> rates (fst (rates_twohop defaultConfig shop_world Map.empty no_rate_body)) = None
   \<and> rates (fst (rates_batch defaultConfig shop_world Map.empty no_rate_body)) = None"
  by (simp add: rates_twohop_def rates_batch_def promoConfig_def defaultConfig_def no_rate_body_def)

text \<open>
  Claim C7, amended. With the kill switch off, a body without a \<^verbatim>\<open>rate\<close> object
  or without \<^verbatim>\<open>rate.items\<close> is answered with the client error 400 and the
  message \<^verbatim>\<open>Invalid rate request format\<close>, and the cache is left alone.
\<close>

theorem malformed_request_rejected:
  assumes "\<not> killSwitch cfg"
    and "rate body = None \<or> (\<exists>rt. rate body = Some rt \<and> items rt = None)"
  shows "status (fst (rates_twohop cfg w r body)) = 400
       \<and> error (fst (rates_twohop cfg w r body)) = Some ''Invalid rate request format''
       \<and> snd (rates_twohop cfg w r body) = r
       \<and> status (fst (rates_batch cfg w r body)) = 400
       \<and> error (fst (rates_batch cfg w r body)) = Some ''Invalid rate request format''
       \<and> snd (rates_batch cfg w r body) = r"
  using assms by (auto simp: rates_twohop_def rates_batch_def)

text \<open>Claim C7, amended, at a body whose \<^verbatim>\<open>rate\<close> object has no items.\<close>

theorem malformed_request_rejected_witness:
  "\<not> killSwitch defaultConfig
   \<and> (\<exists>rt. rate no_items_body = Some rt \<and> items rt = None)
   \<and> status (fst (rates_twohop defaultConfig shop_world Map.empty no_items_body)) = 400
   \<and> error (fst (rates_twohop defaultConfig shop_world Map.empty no_items_body)) =
       Some ''Invalid rate request format''
   \<and> status (fst (rates_batch defaultConfig shop_world Map.empty no_items_body)) = 400
   \<and> error (fst (rates_batch defaultConfig shop_world Map.empty no_items_body)) =
       Some ''Invalid rate request format''"
proof -
  have k: "\<not> killSwitch defaultConfig"
    by (simp add: defaultConfig_def)
  have b: "\<exists>rt. rate no_items_body = Some rt \<and> items rt = None"
    by (simp add: no_items_body_def)
  then have b': "rate no_items_body = None \<or> (\<exists>rt. rate no_items_body = Some rt \<and> items rt = None)"
    by simp
  show ?thesis
    using malformed_request_rejected [OF k b', of shop_world Map.empty] k b
    by simp
qed

lemma gift_cart_all_gift_cards:
  "list_all isGiftCard [gift_card_item, titled_gift_card_item]"
  by (simp add: isGiftCard_def gift_card_item_def titled_gift_card_item_def toLowerCase_def
      toLowerCase_char_def)

text \<open>
  Claim C3 says that every non-empty cart of gift cards gets exactly one quote. With the
  kill switch on it gets none.
\<close>

theorem gift_card_cart_with_kill_switch:
  "killSwitch promoConfig
   \<and> [gift_card_item, titled_gift_card_item] \<noteq> []
   \<and> list_all isGiftCard [gift_card_item, titled_gift_card_item]
   \<and> rates (fst (rates_twohop promoConfig shop_world Map.empty
                    (cart [gift_card_item, titled_gift_card_item]))) = Some []
   \<and> rates (fst (rates_batch promoConfig shop_world Map.empty
                    (cart [gift_card_item, titled_gift_card_item]))) = Some []"
  using gift_cart_all_gift_cards
  by (simp add: rates_twohop_def rates_batch_def promoConfig_def)

text \<open>
  Claim C3, amended. With the kill switch off, a non-empty cart in which every item is a
  gift card (its product type is \<^verbatim>\<open>Gift Card\<close>, or its title holds
  \<^verbatim>\<open>gift card\<close> in any letter case) gets exactly one quote, with the service code
  \<^verbatim>\<open>GIFT_CARD_FREE\<close> and the price \<^verbatim>\<open>0\<close>. The resolver is not called: the
  answer does not depend on the world and the cache is left alone.
\<close>

theorem gift_cards_ship_free:
  assumes "\<not> killSwitch cfg"
    and "rate body = Some rt"
    and "items rt = Some its"
    and "its \<noteq> []"
    and "list_all isGiftCard its"
  shows "rates_twohop cfg w r body =
           (\<lparr> status = 200, error = None,
              rates = Some [Quote ''Free Shipping'' ''GIFT_CARD_FREE'' ''0'' (currency cfg)
                              ''Gift cards ship free''] \<rparr>, r)
       \<and> rates_batch cfg w r body =
           (\<lparr> status = 200, error = None,
              rates = Some [Quote ''Free Shipping'' ''GIFT_CARD_FREE'' ''0'' (currency cfg)
                              ''Gift cards ship free''] \<rparr>, r)"
  using assms by (simp add: rates_twohop_def rates_batch_def)

text \<open>Claim C3, amended, at a cart of two gift cards with every outside service down.\<close>

theorem gift_cards_ship_free_witness:
  "\<not> killSwitch defaultConfig
   \<and> rate (cart [gift_card_item, titled_gift_card_item]) =
       Some \<lparr> items = Some [gift_card_item, titled_gift_card_item] \<rparr>
   \<and> [gift_card_item, titled_gift_card_item] \<noteq> []
   \<and> list_all isGiftCard [gift_card_item, titled_gift_card_item]
   \<and> rates_twohop defaultConfig offline_world Map.empty (cart [gift_card_item, titled_gift_card_item]) =
       (\<lparr> status = 200, error = None,
          rates = Some [Quote ''Free Shipping'' ''GIFT_CARD_FREE'' ''0'' ''USD''
                          ''Gift cards ship free''] \<rparr>, Map.empty)
   \<and> rates_batch defaultConfig offline_world Map.empty (cart [gift_card_item, titled_gift_card_item]) =
       (\<lparr> status = 200, error = None,
          rates = Some [Quote ''Free Shipping'' ''GIFT_CARD_FREE'' ''0'' ''USD''
                          ''Gift cards ship free''] \<rparr>, Map.empty)"
proof -
  have k: "\<not> killSwitch defaultConfig"
    by (simp add: defaultConfig_def)
  have b: "rate (cart [gift_card_item, titled_gift_card_item]) =
             Some \<lparr> items = Some [gift_card_item, titled_gift_card_item] \<rparr>"
    by (simp add: cart_def)
  have i: "items \<lparr> items = Some [gift_card_item, titled_gift_card_item] \<rparr> =
             Some [gift_card_item, titled_gift_card_item]"
    by simp
  have n: "[gift_card_item, titled_gift_card_item] \<noteq> []"
    by simp
  have c: "currency defaultConfig = ''USD''"
    by (simp add: defaultConfig_def)
  show ?thesis
    using gift_cards_ship_free [OF k b i n gift_cart_all_gift_cards, of offline_world Map.empty]
      k b n gift_cart_all_gift_cards c
    by simp
qed

text \<open>
  Claim C4. For every list of line items and every status map, the ready-to-ship bucket
  (status absent or false) and the pre-order bucket (status true) split the list: together
  they hold every item as often as the list does, and no item is in both. The two running
  sums of either variant's loop are the subtotals of these buckets, and they add up to
  the cart's total of price times quantity.
\<close>

theorem buckets_partition_cart:
  "mset (rts_bucket st its) + mset (po_bucket st its) = mset its
   \<and> set (rts_bucket st its) \<union> set (po_bucket st its) = set its
   \<and> set (rts_bucket st its) \<inter> set (po_bucket st its) = {}
   \<and> subtotals_twohop st its (0, 0) =
       (bucket_subtotal (rts_bucket st its), bucket_subtotal (po_bucket st its))
   \<and> subtotals_batch st its (0, 0) =
       (bucket_subtotal (rts_bucket st its), bucket_subtotal (po_bucket st its))
   \<and> bucket_subtotal (rts_bucket st its) + bucket_subtotal (po_bucket st its) = bucket_subtotal its"
proof -
  have m: "mset (rts_bucket st its) + mset (po_bucket st its) = mset its"
    by (induction its) (simp_all add: rts_bucket_def po_bucket_def)
  have u: "set (rts_bucket st its) \<union> set (po_bucket st its) = set its"
    by (auto simp: rts_bucket_def po_bucket_def)
  have d: "set (rts_bucket st its) \<inter> set (po_bucket st its) = {}"
    by (auto simp: rts_bucket_def po_bucket_def)
  have s: "bucket_subtotal (rts_bucket st its) + bucket_subtotal (po_bucket st its) = bucket_subtotal its"
    by (induction its) (simp_all add: rts_bucket_def po_bucket_def bucket_subtotal_def)
  show ?thesis
    using m u d s by (simp add: subtotals_twohop_buckets subtotals_batch_buckets)
qed

text \<open>
  Claim C10. On the same line items, the same status map and the same configuration, the
  pricing code of the two variants (everything after the statuses are resolved) gives the
  same rate list, in the same order.
\<close>

theorem pricing_variants_agree:
  "price_cart_twohop cfg st its = price_cart_batch cfg st its"
  by (simp add: price_cart_twohop_quotes price_cart_batch_quotes)

subsection \<open>The status resolver\<close>

lemma cacheKey_twohop_inj [simp]: "cacheKey_twohop a = cacheKey_twohop b \<longleftrightarrow> a = b"
  by (simp add: cacheKey_twohop_def)

lemma cacheKey_batch_inj [simp]: "cacheKey_batch a = cacheKey_batch b \<longleftrightarrow> a = b"
  by (simp add: cacheKey_batch_def)

lemma check_cache_twohop_results:
  "fst (check_cache_twohop w r ids (res, unc)) v =
     (if v \<in> set ids \<and> getCachedVariantPreOrder w r v \<noteq> None
      then getCachedVariantPreOrder w r v else res v)"
  by (induction ids arbitrary: res unc) (auto split: option.splits)

lemma check_cache_twohop_uncached:
  "snd (check_cache_twohop w r ids (res, unc)) =
     unc @ filter (\<lambda>v. getCachedVariantPreOrder w r v = None) ids"
  by (induction ids arbitrary: res unc) (auto split: option.splits)

lemma resolve_twohop_results:
  "fst (resolve_twohop w unc (res, r)) v =
     (if v \<in> set unc then Some (or_false (external_status_twohop w v)) else res v)"
  by (induction unc arbitrary: res r)
     (auto simp: getProductIdFromVariant_def external_status_twohop_def fetchPreProductStatus_def
        or_false_def Let_def split: option.splits sum.splits)

lemma setCachedVariantPreOrder_key:
  "setCachedVariantPreOrder w r v b k =
     (if k = cacheKey_twohop v \<and> \<not> redis_setEx_rejects w k then Some (CACHE_TTL, b)
      else r k)"
  by (auto simp: setCachedVariantPreOrder_def redis_setEx_def Let_def)

lemma resolve_twohop_cache:
  "snd (resolve_twohop w unc (res, r)) (cacheKey_twohop v) =
     (if v \<in> set unc \<and> \<not> redis_setEx_rejects w (cacheKey_twohop v)
      then Some (CACHE_TTL, or_false (external_status_twohop w v))
      else r (cacheKey_twohop v))"
  by (induction unc arbitrary: res r)
     (auto simp: getProductIdFromVariant_def external_status_twohop_def fetchPreProductStatus_def
        or_false_def Let_def setCachedVariantPreOrder_key split: option.splits sum.splits)

lemma twohop_results:
  "fst (getVariantPreOrderStatus_twohop w r ids) v =
     (if v \<in> set ids
      then Some (case getCachedVariantPreOrder w r v of
                   Some c \<Rightarrow> c
                 | None \<Rightarrow> or_false (external_status_twohop w v))
      else None)"
proof -
  obtain res unc where c: "check_cache_twohop w r ids (Map.empty, []) = (res, unc)"
    by (cases "check_cache_twohop w r ids (Map.empty, [])")
  have res: "res v = (if v \<in> set ids \<and> getCachedVariantPreOrder w r v \<noteq> None
                      then getCachedVariantPreOrder w r v else None)"
    using check_cache_twohop_results [of w r ids Map.empty "[]" v] c by simp
  have unc: "unc = filter (\<lambda>v. getCachedVariantPreOrder w r v = None) ids"
    using check_cache_twohop_uncached [of w r ids Map.empty "[]"] c by simp
  show ?thesis
    using res unc c
    by (auto simp: getVariantPreOrderStatus_twohop_def resolve_twohop_results)
qed

lemma twohop_cache:
  "snd (getVariantPreOrderStatus_twohop w r ids) (cacheKey_twohop v) =
     (if v \<in> set ids \<and> getCachedVariantPreOrder w r v = None
         \<and> \<not> redis_setEx_rejects w (cacheKey_twohop v)
      then Some (CACHE_TTL, or_false (external_status_twohop w v))
      else r (cacheKey_twohop v))"
proof -
  obtain res unc where c: "check_cache_twohop w r ids (Map.empty, []) = (res, unc)"
    by (cases "check_cache_twohop w r ids (Map.empty, [])")
  have unc: "unc = filter (\<lambda>v. getCachedVariantPreOrder w r v = None) ids"
    using check_cache_twohop_uncached [of w r ids Map.empty "[]"] c by simp
  show ?thesis
    using unc c
    by (auto simp: getVariantPreOrderStatus_twohop_def resolve_twohop_cache)
qed

lemma check_cache_batch_results:
  "fst (check_cache_batch w r ids (res, unc)) v =
     (if v \<in> set ids \<and> getCachedVariantMetafield w r v \<noteq> None
      then getCachedVariantMetafield w r v else res v)"
  by (induction ids arbitrary: res unc) (auto split: option.splits)

lemma check_cache_batch_uncached:
  "snd (check_cache_batch w r ids (res, unc)) =
     unc @ filter (\<lambda>v. getCachedVariantMetafield w r v = None) ids"
  by (induction ids arbitrary: res unc) (auto split: option.splits)

lemma setCachedVariantMetafield_key:
  "setCachedVariantMetafield w r v b k =
     (if k = cacheKey_batch v \<and> \<not> redis_setEx_rejects w k then Some (CACHE_TTL, b)
      else r k)"
  by (auto simp: setCachedVariantMetafield_def redis_setEx_def Let_def)

lemma fallback_false_results:
  "fallback_false unc res v = (if v \<in> set unc then Some False else res v)"
  by (induction unc arbitrary: res) auto

lemma fill_remaining_results:
  "fst (fill_remaining w unc (res, r)) v =
     (if v \<in> set unc \<and> res v = None then Some False else res v)"
  by (induction unc arbitrary: res r) auto

lemma fill_remaining_cache:
  "snd (fill_remaining w unc (res, r)) (cacheKey_batch v) =
     (if v \<in> set unc \<and> res v = None \<and> \<not> redis_setEx_rejects w (cacheKey_batch v)
      then Some (CACHE_TTL, False) else r (cacheKey_batch v))"
  by (induction unc arbitrary: res r) (auto simp: setCachedVariantMetafield_key)

lemma process_nodes_thrown:
  "fst (process_nodes w ns (res, r)) = (if list_ex node_lacks_id ns then Some TypeError else None)"
proof (induction ns arbitrary: res r)
  case Nil
  then show ?case by simp
next
  case (Cons n ns)
  then show ?case
    by (cases n) (auto simp: node_lacks_id_def Let_def split: option.splits)
qed

lemma process_nodes_defined:
  "res v \<noteq> None \<Longrightarrow> fst (snd (process_nodes w ns (res, r))) v \<noteq> None"
proof (induction ns arbitrary: res r)
  case Nil
  then show ?case by simp
next
  case (Cons n ns)
  then show ?case
    by (cases n) (auto simp: Let_def split: option.splits)
qed

lemma process_nodes_unanswered:
  "list_all (\<lambda>n. \<not> node_lacks_id n \<and> \<not> node_answers v n) ns \<Longrightarrow>
   fst (snd (process_nodes w ns (res, r))) v = res v
   \<and> snd (snd (process_nodes w ns (res, r))) (cacheKey_batch v) = r (cacheKey_batch v)"
proof (induction ns arbitrary: res r)
  case Nil
  then show ?case by simp
next
  case (Cons n ns)
  then show ?case
    by (cases n)
       (auto simp: Let_def node_lacks_id_def node_answers_def setCachedVariantMetafield_key
          split: option.splits)
qed


lemma fetch_uncached_try_nodes:
  "fetch_uncached_try w unc (res, r) =
     (case answered_nodes w unc of
        Inl e \<Rightarrow> (Some e, res, r)
      | Inr ns \<Rightarrow>
          (if list_ex node_lacks_id ns then (Some TypeError, snd (process_nodes w ns (res, r)))
           else (None, fill_remaining w unc (snd (process_nodes w ns (res, r))))))"
proof (cases "answered_nodes w unc")
  case (Inl e)
  then show ?thesis
    by (auto simp: fetch_uncached_try_def answered_nodes_def split: sum.splits option.splits)
next
  case (Inr ns)
  obtain t acc where p: "process_nodes w ns (res, r) = (t, acc)"
    by (cases "process_nodes w ns (res, r)")
  have t: "t = (if list_ex node_lacks_id ns then Some TypeError else None)"
    using process_nodes_thrown [of w ns res r] p by simp
  have f: "fetch_uncached_try w unc (res, r) =
             (case process_nodes w ns (res, r) of
                (Some e, acc') \<Rightarrow> (Some e, acc')
              | (None, acc') \<Rightarrow> (None, fill_remaining w unc acc'))"
    using Inr
    by (auto simp: fetch_uncached_try_def answered_nodes_def split: sum.splits option.splits)
  show ?thesis
    using Inr p t f by simp
qed

lemma batch_results:
  "fst (getVariantPreOrderStatus_batch w r ids) v =
     (let res = (\<lambda>v. if v \<in> set ids then getCachedVariantMetafield w r v else None);
          unc = filter (\<lambda>v. getCachedVariantMetafield w r v = None) ids
      in if unc = [] then res v
         else
           (case answered_nodes w unc of
              Inl e \<Rightarrow> (if v \<in> set unc then Some False else res v)
            | Inr ns \<Rightarrow>
                (let res1 = fst (snd (process_nodes w ns (res, r)))
                 in if list_ex node_lacks_id ns then (if v \<in> set unc then Some False else res1 v)
                    else (if v \<in> set unc \<and> res1 v = None then Some False else res1 v))))"
proof -
  obtain res unc where c: "check_cache_batch w r ids (Map.empty, []) = (res, unc)"
    by (cases "check_cache_batch w r ids (Map.empty, [])")
  have "\<And>v. res v = (if v \<in> set ids \<and> getCachedVariantMetafield w r v \<noteq> None
                      then getCachedVariantMetafield w r v else None)"
    using check_cache_batch_results [of w r ids Map.empty "[]"] c by simp
  then have res: "res = (\<lambda>v. if v \<in> set ids then getCachedVariantMetafield w r v else None)"
    by auto
  have unc: "unc = filter (\<lambda>v. getCachedVariantMetafield w r v = None) ids"
    using check_cache_batch_uncached [of w r ids Map.empty "[]"] c by simp
  show ?thesis
  proof (cases "unc = []")
    case True
    then show ?thesis
      using c res unc by (simp add: getVariantPreOrderStatus_batch_def)
  next
    case False
    obtain t res1 r1 where p: "fetch_uncached_try w unc (res, r) = (t, res1, r1)"
      by (cases "fetch_uncached_try w unc (res, r)")
    have g: "fst (getVariantPreOrderStatus_batch w r ids) v =
               (case t of Some e \<Rightarrow> fallback_false unc res1 v | None \<Rightarrow> res1 v)"
      using c False p by (simp add: getVariantPreOrderStatus_batch_def split: option.splits)
    show ?thesis
    proof (cases "answered_nodes w unc")
      case (Inl e)
      then have "t = Some e" "res1 = res"
        using p by (simp_all add: fetch_uncached_try_nodes)
      then show ?thesis
        using g Inl False res unc by (simp add: fallback_false_results Let_def)
    next
      case (Inr ns)
      obtain t' res' r' where q: "process_nodes w ns (res, r) = (t', res', r')"
        by (cases "process_nodes w ns (res, r)")
      show ?thesis
      proof (cases "list_ex node_lacks_id ns")
        case True
        then have "t = Some TypeError" "res1 = res'"
          using p q Inr by (simp_all add: fetch_uncached_try_nodes)
        then show ?thesis
          using g Inr False True res unc q by (simp add: fallback_false_results Let_def)
      next
        case nl: False
        then have "t = None" "res1 = fst (fill_remaining w unc (res', r'))"
          using p q Inr by (simp_all add: fetch_uncached_try_nodes)
        then show ?thesis
          using g Inr False nl res unc q by (simp add: fill_remaining_results Let_def)
      qed
    qed
  qed
qed


lemma batch_uncached:
  "snd (check_cache_batch w r ids (Map.empty, [])) =
     filter (\<lambda>v. getCachedVariantMetafield w r v = None) ids"
  by (simp add: check_cache_batch_uncached)

lemma batch_cache_unanswered:
  assumes "v \<in> set ids"
    and "getCachedVariantMetafield w r v = None"
    and "batch_unanswered w (filter (\<lambda>v. getCachedVariantMetafield w r v = None) ids) v"
  shows "snd (getVariantPreOrderStatus_batch w r ids) (cacheKey_batch v) =
           (if redis_setEx_rejects w (cacheKey_batch v) then r (cacheKey_batch v)
            else Some (CACHE_TTL, False))"
proof -
  obtain res unc where c: "check_cache_batch w r ids (Map.empty, []) = (res, unc)"
    by (cases "check_cache_batch w r ids (Map.empty, [])")
  have res: "res v = None"
    using check_cache_batch_results [of w r ids Map.empty "[]" v] c assms(2) by simp
  have unc: "unc = filter (\<lambda>v. getCachedVariantMetafield w r v = None) ids"
    using check_cache_batch_uncached [of w r ids Map.empty "[]"] c by simp
  have v: "v \<in> set unc"
    using unc assms(1,2) by simp
  then have ne: "unc \<noteq> []"
    by auto
  obtain ns where ns: "answered_nodes w unc = Inr ns"
    and ok: "list_all (\<lambda>n. \<not> node_lacks_id n \<and> \<not> node_answers v n) ns"
    using assms(3) unc by (auto simp: batch_unanswered_def split: sum.splits)
  have nl: "\<not> list_ex node_lacks_id ns"
    using ok by (auto simp: list_all_iff list_ex_iff)
  obtain t res' r' where q: "process_nodes w ns (res, r) = (t, res', r')"
    by (cases "process_nodes w ns (res, r)")
  have keep: "res' v = None" "r' (cacheKey_batch v) = r (cacheKey_batch v)"
    using process_nodes_unanswered [OF ok, of w res r] q res by simp_all
  have "getVariantPreOrderStatus_batch w r ids = fill_remaining w unc (res', r')"
    using c ne ns nl q
    by (simp add: getVariantPreOrderStatus_batch_def fetch_uncached_try_nodes split: prod.splits)
  then show ?thesis
    using keep v by (simp add: fill_remaining_cache)
qed

lemma batch_cache_fetch_fails:
  assumes "fetchVariantMetafields w (filter (\<lambda>v. getCachedVariantMetafield w r v = None) ids) = Inl e"
  shows "snd (getVariantPreOrderStatus_batch w r ids) = r"
proof -
  obtain res unc where c: "check_cache_batch w r ids (Map.empty, []) = (res, unc)"
    by (cases "check_cache_batch w r ids (Map.empty, [])")
  have unc: "unc = filter (\<lambda>v. getCachedVariantMetafield w r v = None) ids"
    using check_cache_batch_uncached [of w r ids Map.empty "[]"] c by simp
  have "answered_nodes w unc = Inl e"
    using assms unc by (simp add: answered_nodes_def)
  then show ?thesis
    using c by (simp add: getVariantPreOrderStatus_batch_def fetch_uncached_try_nodes)
qed

lemma batch_defined:
  assumes "v \<in> set ids"
  shows "fst (getVariantPreOrderStatus_batch w r ids) v \<noteq> None"
proof (cases "getCachedVariantMetafield w r v")
  case None
  then have v: "v \<in> set (filter (\<lambda>v. getCachedVariantMetafield w r v = None) ids)"
    using assms by simp
  have ne: "filter (\<lambda>v. getCachedVariantMetafield w r v = None) ids \<noteq> []"
    using None assms by (auto simp: filter_empty_conv)
  show ?thesis
    using v ne by (auto simp: batch_results Let_def split: sum.splits)
next
  case (Some c)
  then have "(\<lambda>v. if v \<in> set ids then getCachedVariantMetafield w r v else None) v \<noteq> None"
    using assms by simp
  then have "\<And>ns. fst (snd (process_nodes w ns
               ((\<lambda>v. if v \<in> set ids then getCachedVariantMetafield w r v else None), r))) v \<noteq> None"
    by (rule process_nodes_defined)
  then show ?thesis
    using Some assms by (auto simp: batch_results Let_def split: sum.splits)
qed

lemma batch_unresolved_false:
  assumes "v \<in> set ids"
    and "getCachedVariantMetafield w r v = None"
    and "unresolved_batch w (filter (\<lambda>v. getCachedVariantMetafield w r v = None) ids) v"
  shows "fst (getVariantPreOrderStatus_batch w r ids) v = Some False"
proof -
  let ?res = "\<lambda>v. if v \<in> set ids then getCachedVariantMetafield w r v else None"
  let ?unc = "filter (\<lambda>v. getCachedVariantMetafield w r v = None) ids"
  have v: "v \<in> set ?unc"
    using assms(1,2) by simp
  have ne: "?unc \<noteq> []"
    using assms(1,2) by (auto simp: filter_empty_conv)
  show ?thesis
  proof (cases "answered_nodes w ?unc")
    case (Inl e)
    then show ?thesis
      using v ne by (simp add: batch_results Let_def)
  next
    case (Inr ns)
    show ?thesis
    proof (cases "list_ex node_lacks_id ns")
      case True
      then show ?thesis
        using Inr v ne by (simp add: batch_results Let_def)
    next
      case False
      then have ok: "list_all (\<lambda>n. \<not> node_lacks_id n \<and> \<not> node_answers v n) ns"
        using assms(3) Inr by (auto simp: unresolved_batch_def list_all_iff list_ex_iff)
      have "fst (snd (process_nodes w ns (?res, r))) v = ?res v"
        using process_nodes_unanswered [OF ok, of w ?res r] by simp
      then have "fst (snd (process_nodes w ns (?res, r))) v = None"
        using assms(2) by simp
      then show ?thesis
        using Inr False v ne by (simp add: batch_results Let_def)
    qed
  qed
qed

text \<open>
  Claim C5. For every list of requested variant ids, whatever the cache and the external
  sources do, the resolver of either variant returns a map that has a boolean for every
  requested id (in the two-hop variant the keys of the map are exactly the requested
  ids). No error of the cache or of an external source leaves the resolver: every
  failure is a value that a \<^verbatim>\<open>catch\<close> turns into a default. An id that is not in
  the cache and cannot be resolved maps to false.
\<close>

theorem resolver_entry_per_requested_id:
  assumes "v \<in> set variantIds"
  shows "(\<exists>b. fst (getVariantPreOrderStatus_twohop w r variantIds) v = Some b)
       \<and> (\<exists>b. fst (getVariantPreOrderStatus_batch w r variantIds) v = Some b)
       \<and> dom (fst (getVariantPreOrderStatus_twohop w r variantIds)) = set variantIds
       \<and> (getCachedVariantPreOrder w r v = None \<and> external_status_twohop w v = None
            \<longrightarrow> fst (getVariantPreOrderStatus_twohop w r variantIds) v = Some False)
       \<and> (getCachedVariantMetafield w r v = None
            \<and> unresolved_batch w (snd (check_cache_batch w r variantIds (Map.empty, []))) v
            \<longrightarrow> fst (getVariantPreOrderStatus_batch w r variantIds) v = Some False)"
proof -
  have a: "\<exists>b. fst (getVariantPreOrderStatus_twohop w r variantIds) v = Some b"
    using assms by (simp add: twohop_results)
  have b: "\<exists>b. fst (getVariantPreOrderStatus_batch w r variantIds) v = Some b"
    using batch_defined [OF assms, of w r] by auto
  have c: "dom (fst (getVariantPreOrderStatus_twohop w r variantIds)) = set variantIds"
    by (auto simp: dom_def twohop_results)
  have d: "getCachedVariantPreOrder w r v = None \<and> external_status_twohop w v = None
            \<longrightarrow> fst (getVariantPreOrderStatus_twohop w r variantIds) v = Some False"
    using assms by (simp add: twohop_results or_false_def)
  have e: "getCachedVariantMetafield w r v = None
            \<and> unresolved_batch w (snd (check_cache_batch w r variantIds (Map.empty, []))) v
            \<longrightarrow> fst (getVariantPreOrderStatus_batch w r variantIds) v = Some False"
    using batch_unresolved_false [OF assms, of w r] by (simp add: batch_uncached)
  show ?thesis
    using a b c d e by blast
qed

lemma offline_uncached:
  "getCachedVariantPreOrder offline_world r v = None"
  "getCachedVariantMetafield offline_world r v = None"
  by (simp_all add: getCachedVariantPreOrder_def getCachedVariantMetafield_def redis_get_def
      offline_world_def)

lemma offline_unresolved:
  "external_status_twohop offline_world v = None"
  "unresolved_batch offline_world ids v"
  by (simp_all add: external_status_twohop_def getProductIdFromVariant_try_def unresolved_batch_def
      answered_nodes_def fetchVariantMetafields_def offline_world_def)

text \<open>Claim C5 with Redis and every external source failing.\<close>

theorem resolver_entry_per_requested_id_witness:
  "''1'' \<in> set [''1'', ''2'']
   \<and> getCachedVariantPreOrder offline_world Map.empty ''1'' = None
   \<and> external_status_twohop offline_world ''1'' = None
   \<and> getCachedVariantMetafield offline_world Map.empty ''1'' = None
   \<and> unresolved_batch offline_world
        (snd (check_cache_batch offline_world Map.empty [''1'', ''2''] (Map.empty, []))) ''1''
   \<and> fst (getVariantPreOrderStatus_twohop offline_world Map.empty [''1'', ''2'']) ''1'' = Some False
   \<and> fst (getVariantPreOrderStatus_batch offline_world Map.empty [''1'', ''2'']) ''1'' = Some False
   \<and> dom (fst (getVariantPreOrderStatus_twohop offline_world Map.empty [''1'', ''2''])) =
       set [''1'', ''2'']"
proof -
  have m: "''1'' \<in> set [''1'', ''2'']"
    by simp
  show ?thesis
    using resolver_entry_per_requested_id [OF m, of offline_world Map.empty] m
      offline_uncached [of Map.empty "''1''"] offline_unresolved(1) [of "''1''"]
      offline_unresolved(2)
        [of "snd (check_cache_batch offline_world Map.empty [''1'', ''2''] (Map.empty, []))" "''1''"]
    by blast
qed

text \<open>
  Claim C6 says that every id that cannot be resolved is also written to the cache as
  false. In the batch variant, when the GraphQL request fails, the id maps to false and
  nothing is written, although Redis accepts writes.
\<close>

theorem batch_failure_not_cached:
  "getCachedVariantMetafield sources_down_world Map.empty ''1'' = None
   \<and> fetchVariantMetafields sources_down_world [''1''] = Inl NetworkError
   \<and> \<not> redis_setEx_rejects sources_down_world (cacheKey_batch ''1'')
   \<and> fst (getVariantPreOrderStatus_batch sources_down_world Map.empty [''1'']) ''1'' = Some False
   \<and> snd (getVariantPreOrderStatus_batch sources_down_world Map.empty [''1''])
         (cacheKey_batch ''1'') = None"
  by (simp add: getVariantPreOrderStatus_batch_def fetch_uncached_try_def fetchVariantMetafields_def
      getCachedVariantMetafield_def redis_get_def sources_down_world_def)

text \<open>
  Claim C6, amended. A requested id that is not in the cache and cannot be resolved maps
  to false, and false is written to the cache under the id's key with the TTL of 24
  hours, provided Redis accepts the write, in these cases: in the two-hop variant
  always; in the batch variant when the GraphQL request succeeds and its answer is well
  formed but has no node for the id. When the GraphQL request of the batch variant
  throws, the id maps to false and the cache is left as it was.
\<close>

theorem unresolved_ids_cached_false:
  assumes "v \<in> set variantIds"
  shows "(getCachedVariantPreOrder w r v = None \<and> external_status_twohop w v = None
            \<and> \<not> redis_setEx_rejects w (cacheKey_twohop v)
          \<longrightarrow> fst (getVariantPreOrderStatus_twohop w r variantIds) v = Some False
            \<and> snd (getVariantPreOrderStatus_twohop w r variantIds) (cacheKey_twohop v) =
                Some (CACHE_TTL, False))
       \<and> (getCachedVariantMetafield w r v = None
            \<and> batch_unanswered w (snd (check_cache_batch w r variantIds (Map.empty, []))) v
            \<and> \<not> redis_setEx_rejects w (cacheKey_batch v)
          \<longrightarrow> fst (getVariantPreOrderStatus_batch w r variantIds) v = Some False
            \<and> snd (getVariantPreOrderStatus_batch w r variantIds) (cacheKey_batch v) =
                Some (CACHE_TTL, False))
       \<and> (getCachedVariantMetafield w r v = None
            \<and> (\<exists>e. fetchVariantMetafields w (snd (check_cache_batch w r variantIds (Map.empty, []))) = Inl e)
          \<longrightarrow> fst (getVariantPreOrderStatus_batch w r variantIds) v = Some False
            \<and> snd (getVariantPreOrderStatus_batch w r variantIds) = r)"
proof -
  let ?unc = "snd (check_cache_batch w r variantIds (Map.empty, []))"
  have a: "getCachedVariantPreOrder w r v = None \<and> external_status_twohop w v = None
            \<and> \<not> redis_setEx_rejects w (cacheKey_twohop v)
          \<longrightarrow> fst (getVariantPreOrderStatus_twohop w r variantIds) v = Some False
            \<and> snd (getVariantPreOrderStatus_twohop w r variantIds) (cacheKey_twohop v) =
                Some (CACHE_TTL, False)"
    using assms by (simp add: twohop_results twohop_cache or_false_def)
  have u: "batch_unanswered w ?unc v \<Longrightarrow> unresolved_batch w ?unc v"
    by (auto simp: batch_unanswered_def unresolved_batch_def list_all_iff split: sum.splits)
  have b: "getCachedVariantMetafield w r v = None \<and> batch_unanswered w ?unc v
            \<and> \<not> redis_setEx_rejects w (cacheKey_batch v)
          \<longrightarrow> fst (getVariantPreOrderStatus_batch w r variantIds) v = Some False
            \<and> snd (getVariantPreOrderStatus_batch w r variantIds) (cacheKey_batch v) =
                Some (CACHE_TTL, False)"
    using batch_unresolved_false [OF assms, of w r] batch_cache_unanswered [OF assms, of w r] u
    by (simp add: batch_uncached)
  have f: "(\<exists>e. fetchVariantMetafields w ?unc = Inl e) \<Longrightarrow> unresolved_batch w ?unc v"
    by (auto simp: unresolved_batch_def answered_nodes_def)
  have c: "getCachedVariantMetafield w r v = None \<and> (\<exists>e. fetchVariantMetafields w ?unc = Inl e)
          \<longrightarrow> fst (getVariantPreOrderStatus_batch w r variantIds) v = Some False
            \<and> snd (getVariantPreOrderStatus_batch w r variantIds) = r"
    using batch_unresolved_false [OF assms, of w r] batch_cache_fetch_fails [of w r variantIds] f
    by (auto simp: batch_uncached)
  show ?thesis
    using a b c by blast
qed

lemma silent_catalog_uncached:
  "getCachedVariantPreOrder silent_catalog_world Map.empty v = None"
  "getCachedVariantMetafield silent_catalog_world Map.empty v = None"
  by (simp_all add: getCachedVariantPreOrder_def getCachedVariantMetafield_def redis_get_def
      silent_catalog_world_def)

lemma silent_catalog_unresolved:
  "external_status_twohop silent_catalog_world v = None"
  "batch_unanswered silent_catalog_world ids v"
  by (simp_all add: external_status_twohop_def getProductIdFromVariant_try_def batch_unanswered_def
      answered_nodes_def fetchVariantMetafields_def node_lacks_id_def node_answers_def
      silent_catalog_world_def)

lemma silent_catalog_accepts:
  "\<not> redis_setEx_rejects silent_catalog_world k"
  by (simp add: silent_catalog_world_def)

lemma sources_down_uncached:
  "getCachedVariantMetafield sources_down_world Map.empty v = None"
  by (simp add: getCachedVariantMetafield_def redis_get_def sources_down_world_def)

lemma sources_down_fetch:
  "fetchVariantMetafields sources_down_world ids = Inl NetworkError"
  by (simp add: fetchVariantMetafields_def sources_down_world_def)

text \<open>
  Claim C6, amended, where the catalog answers without data (both variants write false
  with the TTL 86400) and where the GraphQL request fails (nothing is written).
\<close>

theorem unresolved_ids_cached_false_witness:
  "''1'' \<in> set [''1'', ''2'']
   \<and> getCachedVariantPreOrder silent_catalog_world Map.empty ''1'' = None
   \<and> external_status_twohop silent_catalog_world ''1'' = None
   \<and> \<not> redis_setEx_rejects silent_catalog_world (cacheKey_twohop ''1'')
   \<and> snd (getVariantPreOrderStatus_twohop silent_catalog_world Map.empty [''1'', ''2''])
         (cacheKey_twohop ''1'') = Some (86400, False)
   \<and> getCachedVariantMetafield silent_catalog_world Map.empty ''1'' = None
   \<and> batch_unanswered silent_catalog_world
        (snd (check_cache_batch silent_catalog_world Map.empty [''1'', ''2''] (Map.empty, []))) ''1''
   \<and> \<not> redis_setEx_rejects silent_catalog_world (cacheKey_batch ''1'')
   \<and> snd (getVariantPreOrderStatus_batch silent_catalog_world Map.empty [''1'', ''2''])
         (cacheKey_batch ''1'') = Some (86400, False)
   \<and> getCachedVariantMetafield sources_down_world Map.empty ''1'' = None
   \<and> fetchVariantMetafields sources_down_world
        (snd (check_cache_batch sources_down_world Map.empty [''1'', ''2''] (Map.empty, []))) =
        Inl NetworkError
   \<and> fst (getVariantPreOrderStatus_batch sources_down_world Map.empty [''1'', ''2'']) ''1'' = Some False
   \<and> snd (getVariantPreOrderStatus_batch sources_down_world Map.empty [''1'', ''2'']) = Map.empty"
proof -
  have m: "''1'' \<in> set [''1'', ''2'']"
    by simp
  have t: "CACHE_TTL = 86400"
    by (simp add: CACHE_TTL_def)
  show ?thesis
    using unresolved_ids_cached_false [OF m, of silent_catalog_world Map.empty]
      unresolved_ids_cached_false [OF m, of sources_down_world Map.empty]
      m t silent_catalog_uncached [of "''1''"] silent_catalog_unresolved(1) [of "''1''"]
      silent_catalog_unresolved(2)
        [of "snd (check_cache_batch silent_catalog_world Map.empty [''1'', ''2''] (Map.empty, []))" "''1''"]
      silent_catalog_accepts sources_down_uncached [of "''1''"]
      sources_down_fetch
        [of "snd (check_cache_batch sources_down_world Map.empty [''1'', ''2''] (Map.empty, []))"]
    by auto
qed

subsection \<open>The product-update webhook\<close>

text \<open>
  On the raw bytes of a payload and with a configured secret, \<^verbatim>\<open>verifyWebhook\<close>
  returns true exactly when the signature header is valid.
\<close>

lemma verifyWebhook_raw_body:
  "SHOPIFY_WEBHOOK_SECRET env = Some secret \<Longrightarrow> secret \<noteq> [] \<Longrightarrow>
   (verifyWebhook pf env (Buffer bytes) hmac = Inr True) = signature_valid pf secret bytes hmac"
  by (auto simp: verifyWebhook_def signature_valid_def timingSafeEqual_def Let_def
      split: option.splits)

text \<open>
  The handler never finds raw bytes in \<^verbatim>\<open>req.body\<close>: whenever the route's
  \<^verbatim>\<open>express.raw\<close> would store them, the global \<^verbatim>\<open>express.json\<close> has
  parsed the body already.
\<close>

lemma express_delivers_object:
  "express_json pf rq = Inr st \<Longrightarrow> fst (express_raw rq st) = Object"
  by (auto simp: express_json_def express_raw_def split: if_splits sum.splits option.splits)

lemma webhook_handler_object:
  "webhook_handler key pf env w r hmac Object = ((500, ''Internal Server Error''), r)"
  by (auto simp: webhook_handler_def verifyWebhook_def parse_body_def
      split: option.splits sum.splits bool.splits)

text \<open>Hence the route answers 500 to every request and purges nothing.\<close>

lemma webhook_never_purges:
  "fst (fst (webhook_product_update key pf env w r rq)) = 500
   \<and> snd (webhook_product_update key pf env w r rq) = r"
proof (cases "express_json pf rq")
  case (Inl e)
  then show ?thesis
    by (simp add: webhook_product_update_def)
next
  case (Inr st)
  then have "fst (express_raw rq st) = Object"
    by (rule express_delivers_object)
  then show ?thesis
    using Inr by (simp add: webhook_product_update_def webhook_handler_object)
qed

text \<open>
  Claim C8. The listener is to verify the HMAC-SHA256 signature of a notification
  against the shared secret before it purges cache entries, and to reject only what is
  unauthenticated or malformed. The code does not do that. At a notification of content
  type \<^verbatim>\<open>application/json\<close> about a product whose variant 1 is cached, with the
  signature that is valid under the configured secret, \<^verbatim>\<open>req.body\<close> is the object
  that \<^verbatim>\<open>express.json\<close> parsed, \<^verbatim>\<open>verifyWebhook\<close> throws a TypeError at
  \<^verbatim>\<open>update(data, 'utf8')\<close>, and both variants answer 500 and leave the entry of
  the variant in the cache.
\<close>

theorem signed_notification_rejected:
  "SHOPIFY_WEBHOOK_SECRET secret_env = Some ''k''
   \<and> json_content_type signed_notification
   \<and> signature_valid toy_platform ''k'' (raw_body signed_notification)
        (hmac_header signed_notification)
   \<and> JSON_parse toy_platform (raw_body signed_notification) =
        Inr (Some \<lparr> variants = Some [Some \<lparr> wv_id = 1 \<rparr>] \<rparr>)
   \<and> warm_cache (cacheKey_twohop ''1'') = Some (CACHE_TTL, True)
   \<and> warm_cache (cacheKey_batch ''1'') = Some (CACHE_TTL, True)
   \<and> webhook_product_update_twohop toy_platform secret_env shop_world warm_cache signed_notification =
        ((500, ''Internal Server Error''), warm_cache)
   \<and> webhook_product_update_batch toy_platform secret_env shop_world warm_cache signed_notification =
        ((500, ''Internal Server Error''), warm_cache)"
  by (simp add: webhook_product_update_twohop_def webhook_product_update_batch_def
      webhook_product_update_def express_json_def express_raw_def webhook_handler_def
      verifyWebhook_def signature_valid_def toy_platform_def secret_env_def
      signed_notification_def warm_cache_def cacheKey_twohop_def cacheKey_batch_def)

end
